theory Spec2Isabelle
  imports Main "HOL-Library.Sublist" "HOL-Library.Multiset"
begin

section \<open>Tables\<close>

text \<open>
  A pandas DataFrame as the comparison engine sees it: the header (the column names, in
  order) and the rows (in order), each row the list of its cells in header order. A cell
  is a string, a number or missing (pandas' NaN). The number type is a parameter: the
  engine only ever subtracts two numbers and compares them for equality.

  A column name is the value of a header cell of the sheet. The table provider
  (\<^verbatim>\<open>pd.read_excel\<close>) keeps a header cell that holds a number or a date as that value,
  so a name is either a string or \<open>Other ty shown\<close>, a value that is not a string, given
  by the name of its Python type and its rendering by \<^verbatim>\<open>str\<close>. A string never
  equals such a value. The names of a header are pairwise distinct, and a name is looked
  up at its first position.
\<close>

datatype 'n cell = Str string | Num 'n | Missing

datatype label = Text string | Other string string

text \<open>\<^verbatim>\<open>str(col)\<close> of a column name.\<close>

fun label_text :: "label \<Rightarrow> string" where
  "label_text (Text s) = s"
| "label_text (Other ty shown) = shown"

record 'n table =
  columns :: "label list"
  rows :: "'n cell list list"

datatype exn = KeyError string | TypeError | ValueError

text \<open>An \<^verbatim>\<open>{'error': ...}\<close> dictionary: a fixed message, or a prefix followed by
  the text of a caught exception.\<close>

datatype error = ErrorMsg string | ErrorExn string exn

text \<open>The cell of a row under a column of the header; a row shorter than the header is
  padded with missing cells. \<open>cell_at\<close> is the lookup under a string, as in
  \<^verbatim>\<open>row['Quantity']\<close>.\<close>

definition cell_of :: "label list \<Rightarrow> 'n cell list \<Rightarrow> label \<Rightarrow> 'n cell" where
  "cell_of cols r col = (case map_of (zip cols r) col of Some v \<Rightarrow> v | None \<Rightarrow> Missing)"

definition cell_at :: "label list \<Rightarrow> 'n cell list \<Rightarrow> string \<Rightarrow> 'n cell" where
  "cell_at cols r col = cell_of cols r (Text col)"

text \<open>\<^verbatim>\<open>row[col]\<close> on a row of the frame: KeyError when the header lacks the
  column.\<close>

definition row_get :: "'n table \<Rightarrow> 'n cell list \<Rightarrow> string \<Rightarrow> exn + 'n cell" where
  "row_get df r col =
     (if Text col \<in> set (columns df) then Inr (cell_at (columns df) r col)
      else Inl (KeyError col))"

definition dropna :: "'n cell list \<Rightarrow> 'n cell list" where
  "dropna xs = filter (\<lambda>c. c \<noteq> Missing) xs"

text \<open>Elementwise \<^verbatim>\<open>==\<close>: a missing cell equals nothing, itself included.\<close>

fun cell_eq :: "'n cell \<Rightarrow> 'n cell \<Rightarrow> bool" where
  "cell_eq Missing _ = False"
| "cell_eq _ Missing = False"
| "cell_eq a b = (a = b)"

text \<open>\<^verbatim>\<open>a - b\<close> on two cells: numbers subtract, NaN propagates, a string operand
  raises TypeError.\<close>

fun cell_sub :: "'n::minus cell \<Rightarrow> 'n cell \<Rightarrow> exn + 'n cell" where
  "cell_sub (Str _) _ = Inl TypeError"
| "cell_sub _ (Str _) = Inl TypeError"
| "cell_sub (Num a) (Num b) = Inr (Num (a - b))"
| "cell_sub _ _ = Inr Missing"

text \<open>Sequencing of two steps either of which may raise: the second runs on the value
  of the first, and an exception of the first is the exception of both.\<close>

definition and_then :: "exn + 'v \<Rightarrow> ('v \<Rightarrow> exn + 'w) \<Rightarrow> exn + 'w" where
  "and_then result continue =
     (case result of Inl raised \<Rightarrow> Inl raised | Inr v \<Rightarrow> continue v)"

section \<open>Schema and resource classification\<close>

definition month_tokens :: "string list" where
  "month_tokens = [''Apr-24'', ''May-24'', ''Jun-24'', ''Jul-24'', ''Aug-24'', ''Sep-24'',
     ''Oct-24'', ''Nov-24'', ''Dec-24'', ''Jan-25'', ''Feb-25'']"

text \<open>\<^verbatim>\<open>any(month in col for month in [...])\<close>, with Python's substring test.\<close>

definition is_month_column :: "string \<Rightarrow> bool" where
  "is_month_column col = list_ex (\<lambda>month. sublist month col) month_tokens"

definition type1_indicators :: "string list" where
  "type1_indicators =
     [''Scope'', ''Activity Type'', ''Month'', ''Year'', ''Quantity'', ''Unit'', ''Resource Name'']"

definition type2_indicators :: "string list" where
  "type2_indicators = [''Scope'', ''Activity Type'', ''Resource'', ''Units'']"

text \<open>
  The list comprehension \<^verbatim>\<open>[col for col in columns if any(month in col for ...)]\<close>,
  column by column. On a name that is not a string the test \<^verbatim>\<open>'Apr-24' in col\<close>
  raises TypeError, and the comprehension ends there; \<open>Inl\<close> holds the text of that
  exception.
\<close>

fun month_columns :: "label list \<Rightarrow> string + label list" where
  "month_columns [] = Inr []"
| "month_columns (Text col # cols) =
     (case month_columns cols of
        Inl raised \<Rightarrow> Inl raised
      | Inr found \<Rightarrow> Inr (if is_month_column col then Text col # found else found))"
| "month_columns (Other ty shown # cols) =
     Inl (''argument of type '' @ [CHR 0x27] @ ty @ [CHR 0x27] @ '' is not iterable'')"

text \<open>
  Both classifiers wrap their body in \<^verbatim>\<open>try\<close>/\<^verbatim>\<open>except\<close>. Testing whether a string
  is among the names raises nothing, so the handler of \<open>identify_resource_type\<close> is no
  branch of the model. In \<open>identify_ingestion_file_type\<close> the month columns are
  computed once the facility column and the second list of indicators are found, and the
  handler turns the exception of that computation into the returned string.
\<close>

definition identify_resource_type :: "'n table \<Rightarrow> string" where
  "identify_resource_type ingestion_df =
     (if Text ''Scope'' \<in> set (columns ingestion_df) then ''GHG Emissions'' else ''Unknown'')"

definition identify_ingestion_file_type :: "'n table \<Rightarrow> string" where
  "identify_ingestion_file_type ingestion_df =
     (let cols = columns ingestion_df;
          has_facility = (Text ''Facility Name'' \<in> set cols \<or> Text ''Facility'' \<in> set cols)
      in if has_facility \<and> list_all (\<lambda>col. Text col \<in> set cols) type1_indicators
         then ''Monthly Data in Rows''
         else if has_facility \<and> list_all (\<lambda>col. Text col \<in> set cols) type2_indicators
         then (case month_columns cols of
                 Inl raised \<Rightarrow> ''Error identifying ingestion file type: '' @ raised
               | Inr found \<Rightarrow>
                   if 3 \<le> length found then ''Monthly Data in Columns'' else ''Unknown'')
         else ''Unknown'')"

section \<open>Python sets\<close>

text \<open>
  The engine builds Python sets of names and of cells and turns them into lists. The order
  in which a set is enumerated is no function of its elements alone: it follows their
  hashes, and the hash of a string changes from one interpreter process to the next. A
  process is therefore given by its two hash functions, and every function of the engine
  that enumerates a set takes the process it runs in. A set is kept as the list of its
  elements in enumeration order, arranged by hash.
\<close>

record 'n process =
  hash_label :: "label \<Rightarrow> nat"
  hash_cell :: "'n cell \<Rightarrow> nat"

text \<open>\<^verbatim>\<open>set(xs)\<close>, \<^verbatim>\<open>a - b\<close>, \<^verbatim>\<open>a & b\<close>; \<^verbatim>\<open>len\<close> is \<open>length\<close> and
  \<^verbatim>\<open>list\<close> the list itself.\<close>

definition py_set :: "('a \<Rightarrow> nat) \<Rightarrow> 'a list \<Rightarrow> 'a list" where
  "py_set h xs = sort_key h (remdups xs)"

definition set_minus :: "'a list \<Rightarrow> 'a list \<Rightarrow> 'a list" where
  "set_minus a b = filter (\<lambda>x. x \<notin> set b) a"

definition set_inter :: "'a list \<Rightarrow> 'a list \<Rightarrow> 'a list" where
  "set_inter a b = filter (\<lambda>x. x \<in> set b) a"

section \<open>Facility reconciliation\<close>

record 'n facility_result =
  raw_facilities_count :: nat
  ingestion_facilities_count :: nat
  common_facilities_count :: nat
  missing_in_raw :: "'n cell list"
  missing_in_ingestion :: "'n cell list"
  missing_in_raw_count :: nat
  missing_in_ingestion_count :: nat

text \<open>\<^verbatim>\<open>set(df[col].dropna())\<close> for a column of the header. Both reads of the source
  follow a test that the column is there, so nothing in the body raises and the handler
  of its \<^verbatim>\<open>try\<close> is no branch of the model.\<close>

definition facility_set :: "'n process \<Rightarrow> 'n table \<Rightarrow> string \<Rightarrow> 'n cell list" where
  "facility_set proc df col =
     py_set (hash_cell proc) (dropna (map (\<lambda>r. cell_at (columns df) r col) (rows df)))"

definition compare_facility_names ::
  "'n process \<Rightarrow> 'n table \<Rightarrow> 'n table \<Rightarrow> error + 'n facility_result" where
  "compare_facility_names proc raw_data_df ingestion_df =
     (if Text ''Facility Name'' \<notin> set (columns raw_data_df)
      then Inl (ErrorMsg ''Facility Name column not found in raw data file'')
      else if Text ''Facility Name'' \<notin> set (columns ingestion_df)
              \<and> Text ''Facility'' \<notin> set (columns ingestion_df)
      then Inl (ErrorMsg ''Neither Facility Name nor Facility column found in ingestion file'')
      else
        let ingestion_facility_col =
              (if Text ''Facility Name'' \<in> set (columns ingestion_df)
               then ''Facility Name'' else ''Facility'');
            raw_facilities = facility_set proc raw_data_df ''Facility Name'';
            ingestion_facilities = facility_set proc ingestion_df ingestion_facility_col;
            missing_raw = set_minus ingestion_facilities raw_facilities;
            missing_ing = set_minus raw_facilities ingestion_facilities
        in Inr \<lparr> raw_facilities_count = length raw_facilities,
                 ingestion_facilities_count = length ingestion_facilities,
                 common_facilities_count =
                   length (set_inter raw_facilities ingestion_facilities),
                 missing_in_raw = missing_raw,
                 missing_in_ingestion = missing_ing,
                 missing_in_raw_count = length missing_raw,
                 missing_in_ingestion_count = length missing_ing \<rparr>)"

section \<open>Record matching\<close>

text \<open>One entry of \<^verbatim>\<open>comparison_results\<close>. \<open>None\<close> is Python's \<^verbatim>\<open>None\<close>.
  Where the source's locals share a name with a field, the local is abbreviated
  (\<open>fac\<close>, \<open>res\<close>, \<open>mon\<close>, \<open>yr\<close>).\<close>

record 'n match_record =
  facility_name :: "'n cell"
  resource_name :: "'n cell"
  month :: "'n cell"
  year :: "'n cell"
  raw_quantity :: "'n cell option"
  ingestion_quantity :: "'n cell"
  difference :: "'n cell option"
  match_status :: string

text \<open>The variables the matching loop updates. The local \<^verbatim>\<open>unmatched_ingestion_rows\<close>
  is returned under the key \<^verbatim>\<open>unmatched_rows\<close> and carries that name here.\<close>

record 'n match_state =
  comparison_results :: "'n match_record list"
  matched_rows :: nat
  unmatched_rows :: nat
  quantity_matches :: nat
  quantity_mismatches :: nat

text \<open>The dictionary returned for Monthly Data in Rows: the loop variables and the
  number of ingestion rows.\<close>

record 'n rows_mapping = "'n match_state" +
  total_ingestion_rows :: nat

text \<open>The two successful results of the mapping: the row mapping, or the placeholder
  with its \<^verbatim>\<open>ingestion_type\<close> and \<^verbatim>\<open>status\<close> strings.\<close>

datatype 'n mapping = RowsMapping "'n rows_mapping" | ColumnsMapping string string

text \<open>
  \<^verbatim>\<open>raw_data_df[(raw_data_df['Facility Name'] == facility_name) & ... ]\<close>: the rows of
  raw, in their order, whose four key cells equal the key elementwise. The four columns
  are read left to right, and the first one the header lacks raises KeyError.
\<close>

definition key_equal ::
  "label list \<Rightarrow> 'n cell \<Rightarrow> 'n cell \<Rightarrow> 'n cell \<Rightarrow> 'n cell \<Rightarrow> 'n cell list \<Rightarrow> bool" where
  "key_equal cols fac res mon yr r \<longleftrightarrow>
     cell_eq (cell_at cols r ''Facility Name'') fac
     \<and> cell_eq (cell_at cols r ''Resource Name'') res
     \<and> cell_eq (cell_at cols r ''Month'') mon
     \<and> cell_eq (cell_at cols r ''Year'') yr"

definition raw_match ::
  "'n table \<Rightarrow> 'n cell \<Rightarrow> 'n cell \<Rightarrow> 'n cell \<Rightarrow> 'n cell \<Rightarrow> exn + 'n cell list list" where
  "raw_match raw_data_df fac res mon yr =
     (let cols = columns raw_data_df
      in if Text ''Facility Name'' \<notin> set cols then Inl (KeyError ''Facility Name'')
         else if Text ''Resource Name'' \<notin> set cols then Inl (KeyError ''Resource Name'')
         else if Text ''Month'' \<notin> set cols then Inl (KeyError ''Month'')
         else if Text ''Year'' \<notin> set cols then Inl (KeyError ''Year'')
         else Inr (filter (key_equal cols fac res mon yr)
                     (rows raw_data_df)))"

text \<open>The body of the loop over \<^verbatim>\<open>ingestion_df.iterrows()\<close>.\<close>

definition match_step ::
  "'n::minus table \<Rightarrow> 'n table \<Rightarrow> string \<Rightarrow> 'n match_state \<Rightarrow> 'n cell list
     \<Rightarrow> exn + 'n match_state" where
  "match_step raw_data_df ingestion_df ingestion_facility_col st ingestion_row =
     and_then (row_get ingestion_df ingestion_row ingestion_facility_col) (\<lambda>fac.
     and_then (row_get ingestion_df ingestion_row ''Resource Name'') (\<lambda>res.
     and_then (row_get ingestion_df ingestion_row ''Month'') (\<lambda>mon.
     and_then (row_get ingestion_df ingestion_row ''Year'') (\<lambda>yr.
     and_then (row_get ingestion_df ingestion_row ''Quantity'') (\<lambda>ingestion_q.
     and_then (raw_match raw_data_df fac res mon yr) (\<lambda>matching.
       case matching of
         first # _ \<Rightarrow>
           and_then (row_get raw_data_df first ''Quantity'') (\<lambda>raw_q.
           and_then (cell_sub raw_q ingestion_q) (\<lambda>diff.
             Inr (st\<lparr> matched_rows := matched_rows st + 1,
                      quantity_matches :=
                        (if cell_eq raw_q ingestion_q then quantity_matches st + 1
                         else quantity_matches st),
                      quantity_mismatches :=
                        (if cell_eq raw_q ingestion_q then quantity_mismatches st
                         else quantity_mismatches st + 1),
                      comparison_results := comparison_results st @
                        [\<lparr> facility_name = fac, resource_name = res,
                           month = mon, year = yr,
                           raw_quantity = Some raw_q, ingestion_quantity = ingestion_q,
                           difference = Some diff,
                           match_status =
                             (if cell_eq raw_q ingestion_q then ''Match'' else ''Mismatch'') \<rparr>]
                    \<rparr>)))
       | [] \<Rightarrow>
           Inr (st\<lparr> unmatched_rows := unmatched_rows st + 1,
                    comparison_results := comparison_results st @
                      [\<lparr> facility_name = fac, resource_name = res,
                         month = mon, year = yr,
                         raw_quantity = None, ingestion_quantity = ingestion_q,
                         difference = None,
                         match_status = ''No Match in Raw Data'' \<rparr>] \<rparr>)))))))"

fun match_loop ::
  "'n::minus table \<Rightarrow> 'n table \<Rightarrow> string \<Rightarrow> 'n match_state \<Rightarrow> 'n cell list list
     \<Rightarrow> exn + 'n match_state" where
  "match_loop raw_data_df ingestion_df col st [] = Inr st"
| "match_loop raw_data_df ingestion_df col st (ingestion_row # rest) =
     and_then (match_step raw_data_df ingestion_df col st ingestion_row)
       (\<lambda>st'. match_loop raw_data_df ingestion_df col st' rest)"

definition initial_state :: "'n match_state" where
  "initial_state = \<lparr> comparison_results = [], matched_rows = 0, unmatched_rows = 0,
     quantity_matches = 0, quantity_mismatches = 0 \<rparr>"

text \<open>
  The mapping. An exception of the loop (a key column the header lacks, a subtraction on
  a string) is caught by the handler of the function, which returns an error value for
  the whole mapping.
\<close>

definition map_ghg_emissions_data ::
  "'n::minus table \<Rightarrow> 'n table \<Rightarrow> string \<Rightarrow> error + 'n mapping" where
  "map_ghg_emissions_data raw_data_df ingestion_df ingestion_type =
     (if ingestion_type = ''Monthly Data in Rows'' then
        (let ingestion_facility_col =
               (if Text ''Facility Name'' \<in> set (columns ingestion_df)
                then ''Facility Name'' else ''Facility'')
         in case match_loop raw_data_df ingestion_df ingestion_facility_col initial_state
                   (rows ingestion_df) of
              Inl e \<Rightarrow> Inl (ErrorExn ''Error mapping GHG emissions data: '' e)
            | Inr st \<Rightarrow>
                Inr (RowsMapping
                  \<lparr> comparison_results = comparison_results st,
                    matched_rows = matched_rows st,
                    unmatched_rows = unmatched_rows st,
                    quantity_matches = quantity_matches st,
                    quantity_mismatches = quantity_mismatches st,
                    total_ingestion_rows = length (rows ingestion_df) \<rparr>))
      else if ingestion_type = ''Monthly Data in Columns'' then
        Inr (ColumnsMapping ''Monthly Data in Columns''
               ''Monthly Data in Columns mapping ready for implementation'')
      else Inl (ErrorMsg (''Unknown ingestion file type: '' @ ingestion_type)))"

record 'n ghg_comparison =
  ghg_resource_type :: string
  ghg_ingestion_type :: string
  comparison_status :: string
  mapping :: "'n mapping"

definition compare_ghg_emissions_data ::
  "'n::minus table \<Rightarrow> 'n table \<Rightarrow> string \<Rightarrow> error + 'n ghg_comparison" where
  "compare_ghg_emissions_data raw_data_df ingestion_df ingestion_type =
     (case map_ghg_emissions_data raw_data_df ingestion_df ingestion_type of
        Inl e \<Rightarrow> Inl e
      | Inr mapping_result \<Rightarrow>
          Inr \<lparr> ghg_resource_type = ''GHG Emissions'',
                ghg_ingestion_type = ingestion_type,
                comparison_status = ''Completed'',
                mapping = mapping_result \<rparr>)"

section \<open>Quality analysis\<close>

text \<open>Decimal rendering of a count inside an f-string.\<close>

definition digit_char :: "nat \<Rightarrow> char" where
  "digit_char d = ''0123456789'' ! d"

function show_nat :: "nat \<Rightarrow> string" where
  "show_nat n =
     (if n < 10 then [digit_char n] else show_nat (n div 10) @ [digit_char (n mod 10)])"
  by pat_completeness auto
termination
  by (relation "measure id") auto

declare show_nat.simps [simp del]

text \<open>\<^verbatim>\<open>ingestion_df[col].isnull().sum()\<close> for a column of the header.\<close>

definition null_count :: "'n table \<Rightarrow> label \<Rightarrow> nat" where
  "null_count df col =
     length (filter (\<lambda>c. c = Missing) (map (\<lambda>r. cell_of (columns df) r col) (rows df)))"

definition null_message :: "nat \<Rightarrow> label \<Rightarrow> string" where
  "null_message n col =
     ''Ingestion data has '' @ show_nat n @ '' null values in '' @ [CHR 0x27] @ label_text col
       @ [CHR 0x27] @ '' column''"

text \<open>The loop over \<^verbatim>\<open>columns_to_check\<close>: one message for each column with a null.\<close>

fun null_issues :: "'n table \<Rightarrow> label list \<Rightarrow> string list" where
  "null_issues df [] = []"
| "null_issues df (col # cols) =
     (if 0 < null_count df col
      then null_message (null_count df col) col # null_issues df cols
      else null_issues df cols)"

text \<open>
  \<^verbatim>\<open>DataFrame.duplicated(subset, keep)\<close>. Rows are compared on the tuple of their
  cells in the subset columns, and there a missing cell equals a missing cell. With
  \<^verbatim>\<open>keep='first'\<close> (the default) a row is marked when an earlier row has the same
  tuple; with \<^verbatim>\<open>keep=False\<close> every row whose tuple occurs more than once is marked.
  An empty frame (no columns, or no rows) yields the empty mask before the subset is
  looked at; a subset name outside the header raises KeyError, and an empty subset
  raises ValueError.
\<close>

datatype keep = KeepFirst | KeepFalse

fun marked_after :: "'a list \<Rightarrow> 'a list \<Rightarrow> bool list" where
  "marked_after seen [] = []"
| "marked_after seen (k # ks) = (k \<in> set seen) # marked_after (k # seen) ks"

definition marked_all :: "'a list \<Rightarrow> bool list" where
  "marked_all ks = map (\<lambda>k. 2 \<le> length (filter (\<lambda>k'. k' = k) ks)) ks"

definition projection :: "label list \<Rightarrow> label list \<Rightarrow> 'n cell list \<Rightarrow> 'n cell list" where
  "projection cols subs r = map (cell_of cols r) subs"

definition duplicated :: "'n table \<Rightarrow> label list \<Rightarrow> keep \<Rightarrow> exn + bool list" where
  "duplicated df subs k =
     (if columns df = [] \<or> rows df = [] then Inr []
      else case filter (\<lambda>col. col \<notin> set (columns df)) subs of
        col # _ \<Rightarrow> Inl (KeyError (label_text col))
      | [] \<Rightarrow>
          if subs = [] then Inl ValueError
          else let keys = map (projection (columns df) subs) (rows df)
               in Inr (case k of KeepFirst \<Rightarrow> marked_after [] keys
                               | KeepFalse \<Rightarrow> marked_all keys))"

text \<open>\<^verbatim>\<open>df[mask]\<close>: the rows under a true entry of the mask, the header unchanged.\<close>

definition select_rows :: "'n table \<Rightarrow> bool list \<Rightarrow> 'n table" where
  "select_rows df marks = df\<lparr> rows := map fst (filter snd (zip (rows df) marks)) \<rparr>"

record 'n quality =
  quality_issues :: "string list"
  duplicate_rows :: "'n table option"

text \<open>
  The duplicate check the three branches share: \<open>subs\<close> is the list of duplicate
  columns and \<open>describe\<close> the branch's wording after the count.
\<close>

definition duplicate_check ::
  "'n table \<Rightarrow> label list \<Rightarrow> string \<Rightarrow> string list \<Rightarrow> exn + 'n quality" where
  "duplicate_check ingestion_df subs describe issues =
     and_then (duplicated ingestion_df subs KeepFirst) (\<lambda>first_mask.
       let duplicates = length (filter id first_mask)
       in if 0 < duplicates then
            and_then (duplicated ingestion_df subs KeepFalse) (\<lambda>all_mask.
              Inr \<lparr> quality_issues = issues @
                       [''Ingestion data has '' @ show_nat duplicates @ describe],
                     duplicate_rows = Some (select_rows ingestion_df all_mask) \<rparr>)
          else Inr \<lparr> quality_issues = issues, duplicate_rows = None \<rparr>)"

text \<open>
  The raw table is a parameter of the source function and is never read. The function has
  no handler of its own: the month columns of its second branch are computed as in the
  classifier, and an exception there would leave the function.
\<close>

definition analyze_data_quality :: "'n table \<Rightarrow> 'n table \<Rightarrow> exn + 'n quality" where
  "analyze_data_quality raw_data_df ingestion_df =
     (let ingestion_type = identify_ingestion_file_type ingestion_df
      in if ingestion_type = ''Monthly Data in Rows'' then
           (let columns_to_check =
                  filter (\<lambda>col. col \<noteq> Text ''Quantity'') (columns ingestion_df);
                issues = null_issues ingestion_df columns_to_check;
                duplicate_columns =
                  filter (\<lambda>col. col \<noteq> Text ''Quantity'') (columns ingestion_df)
            in duplicate_check ingestion_df duplicate_columns
                 '' duplicate rows (same values in all columns except Quantity)'' issues)
         else if ingestion_type = ''Monthly Data in Columns'' then
           (case month_columns (columns ingestion_df) of
              Inl raised \<Rightarrow> Inl TypeError
            | Inr found \<Rightarrow>
                (let columns_to_check =
                       filter (\<lambda>col. col \<notin> set found) (columns ingestion_df);
                     issues = null_issues ingestion_df columns_to_check;
                     duplicate_columns =
                       filter (\<lambda>col. col \<notin> set found) (columns ingestion_df)
                 in duplicate_check ingestion_df duplicate_columns
                      '' duplicate rows (same values in all columns except month columns)''
                      issues))
         else
           duplicate_check ingestion_df (columns ingestion_df)
             '' completely duplicate rows'' (null_issues ingestion_df (columns ingestion_df)))"


section \<open>Orchestration\<close>

text \<open>
  The dictionary \<^verbatim>\<open>compare_dataframes\<close> returns. Its key
  \<^verbatim>\<open>missing_in_ingestion\<close> (a row count) is the field \<open>rows_missing_in_ingestion\<close>.
  The key \<^verbatim>\<open>resource_comparison\<close> is set when the value is truthy: a dictionary that
  is not \<^verbatim>\<open>None\<close> always has a key, so it is set exactly when the comparison ran.
\<close>

record 'n comparison =
  raw_data_rows :: nat
  ingestion_rows :: nat
  raw_data_cols :: nat
  ingestion_cols :: nat
  common_columns :: "label list"
  raw_data_only_columns :: "label list"
  ingestion_only_columns :: "label list"
  row_difference :: int
  rows_missing_in_ingestion :: int
  facility_comparison :: "error + 'n facility_result"
  resource_type :: string
  ingestion_file_type :: string
  resource_comparison :: "(error + 'n ghg_comparison) option"

definition compare_dataframes ::
  "'n::minus process \<Rightarrow> 'n table \<Rightarrow> 'n table \<Rightarrow> 'n comparison" where
  "compare_dataframes proc raw_data_df ingestion_df =
     (let rtype = identify_resource_type ingestion_df;
          ftype = identify_ingestion_file_type ingestion_df;
          raw_names = py_set (hash_label proc) (columns raw_data_df);
          ingestion_names = py_set (hash_label proc) (columns ingestion_df)
      in \<lparr> raw_data_rows = length (rows raw_data_df),
           ingestion_rows = length (rows ingestion_df),
           raw_data_cols = length (columns raw_data_df),
           ingestion_cols = length (columns ingestion_df),
           common_columns = set_inter raw_names ingestion_names,
           raw_data_only_columns = set_minus raw_names ingestion_names,
           ingestion_only_columns = set_minus ingestion_names raw_names,
           row_difference = int (length (rows raw_data_df)) - int (length (rows ingestion_df)),
           rows_missing_in_ingestion =
             (if length (rows raw_data_df) > length (rows ingestion_df)
              then int (length (rows raw_data_df)) - int (length (rows ingestion_df)) else 0),
           facility_comparison = compare_facility_names proc raw_data_df ingestion_df,
           resource_type = rtype,
           ingestion_file_type = ftype,
           resource_comparison =
             (if rtype = ''GHG Emissions''
              then Some (compare_ghg_emissions_data raw_data_df ingestion_df ftype)
              else None) \<rparr>)"



section \<open>Vocabulary of the statements\<close>

text \<open>The facility identifiers of a table: the non-missing cells of its facility
  column, as a set.\<close>

definition facility_values :: "'n table \<Rightarrow> string \<Rightarrow> 'n cell set" where
  "facility_values df col = set (dropna (map (\<lambda>r. cell_at (columns df) r col) (rows df)))"

text \<open>The facility column the engine reads in the ingestion table.\<close>

definition ingestion_facility_column :: "'n table \<Rightarrow> string" where
  "ingestion_facility_column ingestion_df =
     (if Text ''Facility Name'' \<in> set (columns ingestion_df) then ''Facility Name'' else ''Facility'')"

text \<open>The name is a string that contains a month token.\<close>

fun holds_month_token :: "label \<Rightarrow> bool" where
  "holds_month_token (Text s) = is_month_column s"
| "holds_month_token (Other ty shown) = False"

fun is_text :: "label \<Rightarrow> bool" where
  "is_text (Text s) = True"
| "is_text (Other ty shown) = False"

text \<open>A column name the classifier has no use for: neither a facility column, nor an
  indicator of either layout, nor a name containing a month token.\<close>

definition unrelated_column :: "label \<Rightarrow> bool" where
  "unrelated_column c \<longleftrightarrow>
     c \<notin> set (map Text ([''Facility Name'', ''Facility''] @ type1_indicators @ type2_indicators))
     \<and> \<not> holds_month_token c"

text \<open>The classifier's answer is no schema kind but the error string of its handler.\<close>

definition failed :: "string \<Rightarrow> bool" where
  "failed answer \<longleftrightarrow> prefix ''Error identifying ingestion file type: '' answer"

text \<open>The header on which the classifier looks for month columns: it has a facility
  column and the four indicators of Monthly Data in Columns, and lacks an indicator of
  Monthly Data in Rows.\<close>

definition columns_layout_header :: "'n table \<Rightarrow> bool" where
  "columns_layout_header t \<longleftrightarrow>
     (Text ''Facility Name'' \<in> set (columns t) \<or> Text ''Facility'' \<in> set (columns t))
     \<and> list_all (\<lambda>name. Text name \<in> set (columns t)) type2_indicators
     \<and> \<not> list_all (\<lambda>name. Text name \<in> set (columns t)) type1_indicators"

subsection \<open>Sample processes and tables\<close>

text \<open>Two processes: in the first all hashes agree, in the second the hash of a name or
  of a text cell is its length.\<close>

definition process_A :: "int process" where
  "process_A = \<lparr> hash_label = (\<lambda>l. 0), hash_cell = (\<lambda>c. 0) \<rparr>"


definition no_table :: "int table" where
  "no_table = \<lparr> columns = [], rows = [] \<rparr>"

definition raw_A :: "int table" where
  "raw_A = \<lparr> columns = map Text [''Facility Name''], rows = [[Str ''Plant A''], [Str ''Plant B'']] \<rparr>"

definition ing_A :: "int table" where
  "ing_A = \<lparr> columns = map Text [''Facility''], rows = [[Str ''Plant A''], [Str ''Plant C'']] \<rparr>"

definition ing_rows :: "int table" where
  "ing_rows =
     \<lparr> columns = map Text [''Facility'', ''Scope'', ''Activity Type'', ''Month'', ''Year'',
                   ''Quantity'', ''Unit'', ''Resource Name''],
       rows = [[Str ''Plant A'', Str ''Scope 1'', Str ''Fuel'', Str ''Apr'', Num 2024, Num 10,
                Str ''L'', Str ''Diesel''],
               [Str ''Plant A'', Str ''Scope 1'', Str ''Fuel'', Str ''Apr'', Num 2024, Num 10,
                Str ''L'', Str ''Diesel''],
               [Str ''Plant B'', Str ''Scope 1'', Str ''Fuel'', Str ''Jun'', Num 2024, Num 3,
                Str ''L'', Str ''Petrol''],
               [Str ''Plant C'', Str ''Scope 1'', Str ''Fuel'', Str ''May'', Num 2024, Num 7,
                Str ''L'', Str ''Petrol'']] \<rparr>"

definition ing_rows_permuted :: "int table" where
  "ing_rows_permuted =
     \<lparr> columns = map Text [''Resource Name'', ''Unit'', ''Quantity'', ''Year'', ''Month'',
                   ''Activity Type'', ''Scope'', ''Facility''],
       rows = [] \<rparr>"

definition ing_rows_notes :: "int table" where
  "ing_rows_notes =
     \<lparr> columns = map Text [''Facility'', ''Scope'', ''Activity Type'', ''Notes'', ''Month'', ''Year'',
                   ''Quantity'', ''Unit'', ''Resource Name''],
       rows = [] \<rparr>"

text \<open>A header with the indicators of Monthly Data in Columns and no month column; the
  same with a column named by the number 2024; and two headers that hold a number and a
  date in either order.\<close>

definition ing_five :: "int table" where
  "ing_five =
     \<lparr> columns = map Text [''Facility'', ''Scope'', ''Activity Type'', ''Resource'', ''Units''],
       rows = [] \<rparr>"

definition ing_five_2024 :: "int table" where
  "ing_five_2024 =
     \<lparr> columns = map Text [''Facility'', ''Scope'', ''Activity Type'', ''Resource'', ''Units'']
                   @ [Other ''int'' ''2024''],
       rows = [] \<rparr>"

definition ing_number_date :: "int table" where
  "ing_number_date =
     \<lparr> columns = map Text [''Facility'', ''Scope'', ''Activity Type'', ''Resource'', ''Units'']
                   @ [Other ''int'' ''2024'', Other ''datetime.datetime'' ''2024-04-01 00:00:00''],
       rows = [] \<rparr>"

definition ing_date_number :: "int table" where
  "ing_date_number =
     \<lparr> columns = map Text [''Facility'', ''Scope'', ''Activity Type'', ''Resource'', ''Units'']
                   @ [Other ''datetime.datetime'' ''2024-04-01 00:00:00'', Other ''int'' ''2024''],
       rows = [] \<rparr>"

subsection \<open>Record matching\<close>

text \<open>The raw table has the four key columns and the quantity column.\<close>

definition raw_has_key_columns :: "'n table \<Rightarrow> bool" where
  "raw_has_key_columns raw \<longleftrightarrow>
     set (map Text [''Facility Name'', ''Resource Name'', ''Month'', ''Year'', ''Quantity''])
       \<subseteq> set (columns raw)"

text \<open>No cell of the column is a string: each is a number or missing.\<close>

definition numeric_column :: "'n table \<Rightarrow> string \<Rightarrow> bool" where
  "numeric_column df col \<longleftrightarrow>
     (\<forall>r \<in> set (rows df). case cell_at (columns df) r col of Str _ \<Rightarrow> False | _ \<Rightarrow> True)"

text \<open>
  What the specification says of the match record \<open>rec\<close> of the ingestion row \<open>r\<close>.
  A raw row is a hit when its four key cells equal those of \<open>r\<close> (elementwise, so a
  missing cell equals nothing). Without a hit the status is No Match in Raw Data and the
  raw quantity and the difference are null. Otherwise the raw quantity is that of the hit
  with the least position in raw, the difference is the raw quantity minus the ingestion
  quantity, and the status is Match when the two quantities are equal and Mismatch
  when not.
\<close>

definition describes_row ::
  "'n::minus table \<Rightarrow> 'n table \<Rightarrow> 'n cell list \<Rightarrow> 'n match_record \<Rightarrow> bool" where
  "describes_row raw ing r rec \<longleftrightarrow>
     (let fac = cell_at (columns ing) r (ingestion_facility_column ing);
          res = cell_at (columns ing) r ''Resource Name'';
          mon = cell_at (columns ing) r ''Month'';
          yr = cell_at (columns ing) r ''Year'';
          q = cell_at (columns ing) r ''Quantity'';
          hit = key_equal (columns raw) fac res mon yr
      in facility_name rec = fac \<and> resource_name rec = res \<and> month rec = mon
         \<and> year rec = yr \<and> ingestion_quantity rec = q
         \<and> (if \<forall>raw_row \<in> set (rows raw). \<not> hit raw_row
            then match_status rec = ''No Match in Raw Data''
                 \<and> raw_quantity rec = None \<and> difference rec = None
            else \<exists>j < length (rows raw).
                   hit (rows raw ! j) \<and> (\<forall>k < j. \<not> hit (rows raw ! k))
                   \<and> (let raw_q = cell_at (columns raw) (rows raw ! j) ''Quantity''
                      in raw_quantity rec = Some raw_q
                         \<and> (\<exists>d. cell_sub raw_q q = Inr d \<and> difference rec = Some d)
                         \<and> match_status rec
                             = (if cell_eq raw_q q then ''Match'' else ''Mismatch''))))"

text \<open>
  When record matching returns a mapping. The hits of an ingestion row are the raw rows
  whose key equals its key. The row can be matched when it has no hit, or when raw has a
  Quantity column and neither the quantity of its first hit nor its own quantity is text.
  The tables can be matched when the ingestion table has no row, or raw has the four key
  columns and every ingestion row can be matched.
\<close>

definition hits :: "'n table \<Rightarrow> 'n table \<Rightarrow> 'n cell list \<Rightarrow> 'n cell list \<Rightarrow> bool" where
  "hits raw ing r =
     key_equal (columns raw) (cell_at (columns ing) r (ingestion_facility_column ing))
       (cell_at (columns ing) r ''Resource Name'') (cell_at (columns ing) r ''Month'')
       (cell_at (columns ing) r ''Year'')"

fun text_cell :: "'n cell \<Rightarrow> bool" where
  "text_cell (Str s) = True"
| "text_cell c = False"

definition row_matchable :: "'n table \<Rightarrow> 'n table \<Rightarrow> 'n cell list \<Rightarrow> bool" where
  "row_matchable raw ing r \<longleftrightarrow>
     (case find (hits raw ing r) (rows raw) of
        None \<Rightarrow> True
      | Some first_hit \<Rightarrow>
          Text ''Quantity'' \<in> set (columns raw)
          \<and> \<not> text_cell (cell_at (columns raw) first_hit ''Quantity'')
          \<and> \<not> text_cell (cell_at (columns ing) r ''Quantity''))"

definition matchable :: "'n table \<Rightarrow> 'n table \<Rightarrow> bool" where
  "matchable raw ing \<longleftrightarrow>
     rows ing = []
     \<or> (set (map Text [''Facility Name'', ''Resource Name'', ''Month'', ''Year''])
           \<subseteq> set (columns raw)
        \<and> (\<forall>r \<in> set (rows ing). row_matchable raw ing r))"

definition raw_rows :: "int table" where
  "raw_rows =
     \<lparr> columns = map Text [''Facility Name'', ''Resource Name'', ''Month'', ''Year'', ''Quantity''],
       rows = [[Str ''Plant A'', Str ''Diesel'', Str ''Apr'', Num 2024, Num 12],
               [Str ''Plant A'', Str ''Diesel'', Str ''Apr'', Num 2024, Num 10],
               [Str ''Plant B'', Str ''Petrol'', Str ''Jun'', Num 2024, Num 3]] \<rparr>"

definition raw_text :: "int table" where
  "raw_text =
     \<lparr> columns = map Text [''Facility Name'', ''Resource Name'', ''Month'', ''Year'', ''Quantity''],
       rows = [[Str ''Plant A'', Str ''Diesel'', Str ''Apr'', Num 2024, Str ''12 kg'']] \<rparr>"

text \<open>The mapping of \<open>ing_rows\<close> against \<open>raw_rows\<close>.\<close>

definition rows_result :: "int rows_mapping" where
  "rows_result =
    \<lparr> comparison_results =
        [\<lparr> facility_name = Str ''Plant A'', resource_name = Str ''Diesel'', month = Str ''Apr'',
           year = Num 2024, raw_quantity = Some (Num 12), ingestion_quantity = Num 10,
           difference = Some (Num 2), match_status = ''Mismatch'' \<rparr>,
         \<lparr> facility_name = Str ''Plant A'', resource_name = Str ''Diesel'', month = Str ''Apr'',
           year = Num 2024, raw_quantity = Some (Num 12), ingestion_quantity = Num 10,
           difference = Some (Num 2), match_status = ''Mismatch'' \<rparr>,
         \<lparr> facility_name = Str ''Plant B'', resource_name = Str ''Petrol'', month = Str ''Jun'',
           year = Num 2024, raw_quantity = Some (Num 3), ingestion_quantity = Num 3,
           difference = Some (Num 0), match_status = ''Match'' \<rparr>,
         \<lparr> facility_name = Str ''Plant C'', resource_name = Str ''Petrol'', month = Str ''May'',
           year = Num 2024, raw_quantity = None, ingestion_quantity = Num 7,
           difference = None, match_status = ''No Match in Raw Data'' \<rparr>],
      matched_rows = 3, unmatched_rows = 1, quantity_matches = 1, quantity_mismatches = 2,
      total_ingestion_rows = 4 \<rparr>"

subsection \<open>Quality analysis\<close>

text \<open>
  The identifying columns of the specification: all columns but Quantity under Monthly
  Data in Rows, all columns whose name holds no month token under Monthly Data in
  Columns, and every column otherwise. The identity of a row is its projection on them.
\<close>

definition identifying_columns :: "'n table \<Rightarrow> label list" where
  "identifying_columns ing =
     (if identify_ingestion_file_type ing = ''Monthly Data in Rows''
      then filter (\<lambda>col. col \<noteq> Text ''Quantity'') (columns ing)
      else if identify_ingestion_file_type ing = ''Monthly Data in Columns''
      then filter (\<lambda>col. \<not> holds_month_token col) (columns ing)
      else columns ing)"

definition identity :: "'n table \<Rightarrow> 'n cell list \<Rightarrow> 'n cell list" where
  "identity ing r = projection (columns ing) (identifying_columns ing) r"

text \<open>The row belongs to a duplicate group: its identity occurs at least twice in the
  table.\<close>

definition in_duplicate_group :: "'n table \<Rightarrow> 'n cell list \<Rightarrow> bool" where
  "in_duplicate_group ing r \<longleftrightarrow>
     2 \<le> length (filter (\<lambda>r'. identity ing r' = identity ing r) (rows ing))"

text \<open>The row at position \<open>i\<close> repeats the identity of a row before it; the number of
  such rows is that of the occurrences beyond the first of each group.\<close>

definition repeats_earlier :: "'n table \<Rightarrow> nat \<Rightarrow> bool" where
  "repeats_earlier ing i \<longleftrightarrow>
     identity ing (rows ing ! i) \<in> set (map (identity ing) (take i (rows ing)))"

definition repeated_rows :: "'n table \<Rightarrow> nat" where
  "repeated_rows ing = length (filter (repeats_earlier ing) [0..<length (rows ing)])"

text \<open>The wording that follows the count in the duplicate message.\<close>

definition duplicate_wording :: "'n table \<Rightarrow> string" where
  "duplicate_wording ing =
     (if identify_ingestion_file_type ing = ''Monthly Data in Rows''
      then '' duplicate rows (same values in all columns except Quantity)''
      else if identify_ingestion_file_type ing = ''Monthly Data in Columns''
      then '' duplicate rows (same values in all columns except month columns)''
      else '' completely duplicate rows'')"

text \<open>Two rows that agree on every column, under the Monthly Data in Rows schema.\<close>

definition ing_dup :: "int table" where
  "ing_dup =
     \<lparr> columns = map Text [''Facility'', ''Scope'', ''Activity Type'', ''Month'', ''Year'',
                   ''Quantity'', ''Unit'', ''Resource Name''],
       rows = [[Str ''Plant A'', Str ''Scope 1'', Str ''Fuel'', Str ''Apr'', Num 2024, Num 5,
                Str ''L'', Str ''Diesel''],
               [Str ''Plant A'', Str ''Scope 1'', Str ''Fuel'', Str ''Apr'', Num 2024, Num 5,
                Str ''L'', Str ''Diesel'']] \<rparr>"

text \<open>A table read from a sheet: the table provider takes the header and the rows from
  the cells of one sheet, so the table has a column whenever it has a row.\<close>

definition sheet_table :: "'n table \<Rightarrow> bool" where
  "sheet_table df \<longleftrightarrow> (columns df = [] \<longrightarrow> rows df = [])"

subsection \<open>Orchestration\<close>



text \<open>The report carries a list of match records with its counters.\<close>

definition carries_match_records :: "'n comparison \<Rightarrow> bool" where
  "carries_match_records c \<longleftrightarrow>
     (case resource_comparison c of
        Some (Inr g) \<Rightarrow> (case mapping g of RowsMapping m \<Rightarrow> True | ColumnsMapping _ _ \<Rightarrow> False)
      | _ \<Rightarrow> False)"

definition ing_cols :: "int table" where
  "ing_cols =
     \<lparr> columns = map Text [''Facility'', ''Scope'', ''Activity Type'', ''Resource'', ''Apr-24'',
                   ''May-24'', ''Jun-24'', ''Units''],
       rows = [[Str ''Plant A'', Str ''Scope 1'', Str ''Fuel'', Str ''Diesel'', Num 10, Num 11,
                Num 12, Str ''L'']] \<rparr>"

definition ing_scope :: "int table" where
  "ing_scope = \<lparr> columns = map Text [''Scope''], rows = [[Str ''Scope 1'']] \<rparr>"

section \<open>Properties\<close>

subsection \<open>Schema classification\<close>

lemma month_columns_text:
  "list_all is_text cols \<Longrightarrow> month_columns cols = Inr (filter holds_month_token cols)"
proof (induction cols)
  case Nil
  then show ?case by simp
next
  case (Cons c cols)
  then show ?case by (cases c) simp_all
qed

lemma month_columns_raises:
  "\<not> list_all is_text cols \<Longrightarrow> \<exists>raised. month_columns cols = Inl raised"
proof (induction cols)
  case Nil
  then show ?case by simp
next
  case (Cons c cols)
  then show ?case by (cases c) (auto split: sum.splits)
qed

lemma month_columns_found:
  assumes "month_columns cols = Inr found"
  shows "list_all is_text cols" and "found = filter holds_month_token cols"
proof -
  show t: "list_all is_text cols"
    using assms month_columns_raises[of cols] by auto
  show "found = filter holds_month_token cols"
    using assms month_columns_text[OF t] by simp
qed

lemma month_columns_skip:
  "\<not> is_month_column s \<Longrightarrow> month_columns (xs @ Text s # ys) = month_columns (xs @ ys)"
proof (induction xs)
  case Nil
  then show ?case by (simp split: sum.splits)
next
  case (Cons x xs)
  then show ?case by (cases x) simp_all
qed

lemma length_filter_mset:
  "mset xs = mset ys \<Longrightarrow> length (filter P xs) = length (filter P ys)"
  by (metis mset_filter size_mset)

lemma list_all_mem_insert:
  "c \<notin> Text ` set ys \<Longrightarrow>
     list_all (\<lambda>col. Text col \<in> insert c A) ys = list_all (\<lambda>col. Text col \<in> A) ys"
  by (induction ys) auto

text \<open>The classifier, with its guards named.\<close>

lemma identify_ingestion_file_type_guards:
  "identify_ingestion_file_type t =
     (if (Text ''Facility Name'' \<in> set (columns t) \<or> Text ''Facility'' \<in> set (columns t))
         \<and> list_all (\<lambda>name. Text name \<in> set (columns t)) type1_indicators
      then ''Monthly Data in Rows''
      else if columns_layout_header t
      then (case month_columns (columns t) of
              Inl raised \<Rightarrow> ''Error identifying ingestion file type: '' @ raised
            | Inr found \<Rightarrow>
                if 3 \<le> length found then ''Monthly Data in Columns'' else ''Unknown'')
      else ''Unknown'')"
  by (auto simp: identify_ingestion_file_type_def columns_layout_header_def Let_def)

lemma identify_ingestion_file_type_failed:
  "failed (identify_ingestion_file_type t)
     \<longleftrightarrow> columns_layout_header t \<and> (\<exists>l \<in> set (columns t). \<not> is_text l)"
proof (cases "list_all is_text (columns t)")
  case True
  then have "\<not> (\<exists>l \<in> set (columns t). \<not> is_text l)"
    by (simp add: list_all_iff)
  then show ?thesis
    using month_columns_text[OF True]
    by (simp add: identify_ingestion_file_type_guards failed_def)
next
  case False
  then have e: "\<exists>l \<in> set (columns t). \<not> is_text l"
    by (simp add: list_all_iff)
  from month_columns_raises[OF False] obtain raised where
    "month_columns (columns t) = Inl raised"
    by blast
  with e show ?thesis
    by (auto simp: identify_ingestion_file_type_guards failed_def
          columns_layout_header_def)
qed

lemma columns_layout_header_cong:
  "set (columns t') = set (columns t) \<Longrightarrow> columns_layout_header t' = columns_layout_header t"
  by (simp add: columns_layout_header_def)

text \<open>
  C8, as stated, fails. The name 2024, a number, is unrelated: it is no facility or
  indicator name and contains no month token. Added to a header that the classifier calls
  Unknown, it makes the classifier return an error string. And of two headers that are
  permutations of each other, one with a number before a date and one with the date
  first, the classifier returns two different strings.
\<close>

theorem identify_ingestion_file_type_number_counterexample:
  "unrelated_column (Other ''int'' ''2024'')
   \<and> columns ing_five_2024 = columns ing_five @ [Other ''int'' ''2024'']
   \<and> identify_ingestion_file_type ing_five = ''Unknown''
   \<and> identify_ingestion_file_type ing_five_2024
       = ''Error identifying ingestion file type: argument of type '' @ [CHR 0x27] @ ''int''
           @ [CHR 0x27] @ '' is not iterable''
   \<and> mset (columns ing_date_number) = mset (columns ing_number_date)
   \<and> identify_ingestion_file_type ing_date_number
       \<noteq> identify_ingestion_file_type ing_number_date"
  by (simp add: unrelated_column_def type1_indicators_def type2_indicators_def
        ing_five_def ing_five_2024_def ing_number_date_def ing_date_number_def
        identify_ingestion_file_type_def is_month_column_def month_tokens_def sublist_code)

text \<open>
  C8, amended. The ingestion file type is decided by the column names alone. A table
  whose header is a permutation of another's gets the same answer, unless both answers
  are error strings (whose text may then differ). A table whose header has one more
  column, anywhere, named by a string that is unrelated, gets the same answer. The answer
  is an error string instead of a schema kind exactly when some column name is not a
  string and the header has a facility column and the four indicators of Monthly Data in
  Columns while it lacks an indicator of Monthly Data in Rows.
\<close>

theorem identify_ingestion_file_type_columns_only:
  "(mset (columns t') = mset (columns t)
      \<longrightarrow> identify_ingestion_file_type t' = identify_ingestion_file_type t
          \<or> (failed (identify_ingestion_file_type t')
              \<and> failed (identify_ingestion_file_type t)))
   \<and> (columns t = xs @ ys \<and> columns t' = xs @ Text s # ys \<and> unrelated_column (Text s)
      \<longrightarrow> identify_ingestion_file_type t' = identify_ingestion_file_type t)
   \<and> (failed (identify_ingestion_file_type t)
      \<longleftrightarrow> columns_layout_header t \<and> (\<exists>l \<in> set (columns t). \<not> is_text l))"
proof (intro conjI impI)
  assume m: "mset (columns t') = mset (columns t)"
  then have s: "set (columns t') = set (columns t)"
    by (rule mset_eq_setD)
  show "identify_ingestion_file_type t' = identify_ingestion_file_type t
          \<or> (failed (identify_ingestion_file_type t')
              \<and> failed (identify_ingestion_file_type t))"
  proof (cases "list_all is_text (columns t)")
    case True
    then have t': "list_all is_text (columns t')"
      using s by (simp add: list_all_iff)
    have "length (filter holds_month_token (columns t'))
            = length (filter holds_month_token (columns t))"
      using m by (rule length_filter_mset)
    then show ?thesis
      using s columns_layout_header_cong[OF s] month_columns_text[OF True]
        month_columns_text[OF t']
      by (simp add: identify_ingestion_file_type_guards)
  next
    case False
    then have f': "\<not> list_all is_text (columns t')"
      using s by (simp add: list_all_iff)
    from month_columns_raises[OF False] month_columns_raises[OF f']
    obtain raised raised' where "month_columns (columns t) = Inl raised"
      "month_columns (columns t') = Inl raised'"
      by blast
    then show ?thesis
      using s columns_layout_header_cong[OF s]
      by (simp add: identify_ingestion_file_type_guards failed_def)
  qed
next
  assume a: "columns t = xs @ ys \<and> columns t' = xs @ Text s # ys \<and> unrelated_column (Text s)"
  then have c1: "Text s \<notin> Text ` set type1_indicators"
    and c2: "Text s \<notin> Text ` set type2_indicators"
    and cf: "s \<noteq> ''Facility Name''" "s \<noteq> ''Facility''" and cm: "\<not> is_month_column s"
    by (auto simp: unrelated_column_def)
  have s: "set (columns t') = insert (Text s) (set (columns t))"
    using a by auto
  have l: "month_columns (columns t') = month_columns (columns t)"
    using a cm by (simp add: month_columns_skip)
  have t1: "list_all (\<lambda>col. Text col \<in> set (columns t')) type1_indicators
            = list_all (\<lambda>col. Text col \<in> set (columns t)) type1_indicators"
    unfolding s by (rule list_all_mem_insert[OF c1])
  have t2: "list_all (\<lambda>col. Text col \<in> set (columns t')) type2_indicators
            = list_all (\<lambda>col. Text col \<in> set (columns t)) type2_indicators"
    unfolding s by (rule list_all_mem_insert[OF c2])
  have hf: "(Text ''Facility Name'' \<in> set (columns t'))
              = (Text ''Facility Name'' \<in> set (columns t))"
           "(Text ''Facility'' \<in> set (columns t')) = (Text ''Facility'' \<in> set (columns t))"
    using cf unfolding s by auto
  show "identify_ingestion_file_type t' = identify_ingestion_file_type t"
    unfolding identify_ingestion_file_type_def Let_def t1 t2 hf l by (rule refl)
next
  show "failed (identify_ingestion_file_type t)
      \<longleftrightarrow> columns_layout_header t \<and> (\<exists>l \<in> set (columns t). \<not> is_text l)"
    by (rule identify_ingestion_file_type_failed)
qed

theorem identify_ingestion_file_type_columns_only_witness:
  "mset (columns ing_rows_permuted) = mset (columns ing_rows)
   \<and> identify_ingestion_file_type ing_rows_permuted = ''Monthly Data in Rows''
   \<and> columns ing_rows = map Text [''Facility'', ''Scope'', ''Activity Type'']
        @ map Text [''Month'', ''Year'', ''Quantity'', ''Unit'', ''Resource Name'']
   \<and> columns ing_rows_notes = map Text [''Facility'', ''Scope'', ''Activity Type'']
        @ Text ''Notes'' # map Text [''Month'', ''Year'', ''Quantity'', ''Unit'', ''Resource Name'']
   \<and> unrelated_column (Text ''Notes'')
   \<and> identify_ingestion_file_type ing_rows_notes = ''Monthly Data in Rows''
   \<and> columns_layout_header ing_five_2024
   \<and> (\<exists>l \<in> set (columns ing_five_2024). \<not> is_text l)
   \<and> failed (identify_ingestion_file_type ing_five_2024)
   \<and> \<not> failed (identify_ingestion_file_type ing_five)"
proof -
  have p: "mset (columns ing_rows_permuted) = mset (columns ing_rows)"
    by (simp add: ing_rows_def ing_rows_permuted_def)
  have e: "columns ing_rows = map Text [''Facility'', ''Scope'', ''Activity Type'']
             @ map Text [''Month'', ''Year'', ''Quantity'', ''Unit'', ''Resource Name'']
           \<and> columns ing_rows_notes = map Text [''Facility'', ''Scope'', ''Activity Type'']
             @ Text ''Notes''
               # map Text [''Month'', ''Year'', ''Quantity'', ''Unit'', ''Resource Name'']
           \<and> unrelated_column (Text ''Notes'')"
    by (simp add: ing_rows_def ing_rows_notes_def unrelated_column_def type1_indicators_def
          type2_indicators_def is_month_column_def month_tokens_def sublist_code)
  have r: "identify_ingestion_file_type ing_rows = ''Monthly Data in Rows''"
    by (simp add: identify_ingestion_file_type_def ing_rows_def type1_indicators_def)
  have h: "columns_layout_header ing_five_2024
           \<and> (\<exists>l \<in> set (columns ing_five_2024). \<not> is_text l)
           \<and> \<not> (\<exists>l \<in> set (columns ing_five). \<not> is_text l)"
    by (simp add: columns_layout_header_def ing_five_2024_def ing_five_def
          type1_indicators_def type2_indicators_def)
  from identify_ingestion_file_type_columns_only [of ing_rows_permuted ing_rows]
       identify_ingestion_file_type_columns_only
         [of ing_rows_notes ing_rows "map Text [''Facility'', ''Scope'', ''Activity Type'']"
             "map Text [''Month'', ''Year'', ''Quantity'', ''Unit'', ''Resource Name'']"
             "''Notes''"]
       identify_ingestion_file_type_columns_only [of ing_five_2024 ing_five_2024]
       identify_ingestion_file_type_columns_only [of ing_five ing_five]
  show ?thesis using p e r h by (simp add: failed_def)
qed

subsection \<open>Facility reconciliation\<close>

lemma set_py_set [simp]: "set (py_set h xs) = set xs"
  by (simp add: py_set_def)

lemma distinct_py_set [simp]: "distinct (py_set h xs)"
  by (simp add: py_set_def)


lemma length_py_set: "length (py_set h xs) = card (set xs)"
  by (simp add: py_set_def length_remdups_card_conv)

lemma set_facility_set: "set (facility_set proc df col) = facility_values df col"
  by (simp add: facility_set_def facility_values_def)

lemma length_facility_set: "length (facility_set proc df col) = card (facility_values df col)"
  by (simp add: facility_set_def facility_values_def length_py_set)

lemma length_set_minus:
  assumes "distinct a"
  shows "length (set_minus a b) = card (set a - set b)"
proof -
  have "{x. x \<notin> set b} \<inter> set a = set a - set b"
    by auto
  then show ?thesis
    using assms by (simp add: set_minus_def distinct_length_filter)
qed

lemma length_set_inter:
  assumes "distinct a"
  shows "length (set_inter a b) = card (set a \<inter> set b)"
proof -
  have "{x. x \<in> set b} \<inter> set a = set a \<inter> set b"
    by auto
  then show ?thesis
    using assms by (simp add: set_inter_def distinct_length_filter)
qed

lemma finite_facility_values: "finite (facility_values df col)"
  by (simp add: facility_values_def)

lemma card_Int_Diff: "finite A \<Longrightarrow> card (A \<inter> B) + card (A - B) = card A"
  by (metis Diff_Diff_Int Diff_subset card_Diff_subset add.commute card_mono finite_Diff
        le_add_diff_inverse)

text \<open>
  C9. The facility comparison returns an error value exactly when the raw table has no
  Facility Name column or the ingestion table has neither a Facility Name nor a Facility
  column; in every other case it returns a comparison result.
\<close>

theorem compare_facility_names_error_iff:
  "isl (compare_facility_names proc raw ing) \<longleftrightarrow>
     (Text ''Facility Name'' \<notin> set (columns raw)
      \<or> (Text ''Facility Name'' \<notin> set (columns ing) \<and> Text ''Facility'' \<notin> set (columns ing)))"
  by (simp add: compare_facility_names_def Let_def)

theorem compare_facility_names_error_iff_witness:
  "isl (compare_facility_names process_A no_table ing_A)
   \<and> \<not> isl (compare_facility_names process_A raw_A ing_A)
   \<and> isl (compare_facility_names process_A raw_A no_table)"
  using compare_facility_names_error_iff [of process_A no_table ing_A]
        compare_facility_names_error_iff [of process_A raw_A ing_A]
        compare_facility_names_error_iff [of process_A raw_A no_table]
  by (simp add: no_table_def raw_A_def ing_A_def)

text \<open>
  C7. When the raw table has a Facility Name column and the ingestion table a facility
  column, the comparison succeeds; the common count plus the count missing in ingestion is
  the size of the raw facility set, the common count plus the count missing in raw is the
  size of the ingestion facility set, and the two difference sets are disjoint from each
  other and from the set of common facilities.
\<close>

theorem compare_facility_names_counts:
  assumes "Text ''Facility Name'' \<in> set (columns raw)"
      and "Text ''Facility Name'' \<in> set (columns ing) \<or> Text ''Facility'' \<in> set (columns ing)"
  shows "\<exists>r. compare_facility_names proc raw ing = Inr r
      \<and> raw_facilities_count r = card (facility_values raw ''Facility Name'')
      \<and> ingestion_facilities_count r
          = card (facility_values ing (ingestion_facility_column ing))
      \<and> common_facilities_count r + missing_in_ingestion_count r = raw_facilities_count r
      \<and> common_facilities_count r + missing_in_raw_count r = ingestion_facilities_count r
      \<and> missing_in_raw_count r = card (set (missing_in_raw r))
      \<and> missing_in_ingestion_count r = card (set (missing_in_ingestion r))
      \<and> set (missing_in_raw r) \<inter> set (missing_in_ingestion r) = {}
      \<and> set (missing_in_raw r) \<inter> (facility_values raw ''Facility Name''
            \<inter> facility_values ing (ingestion_facility_column ing)) = {}
      \<and> set (missing_in_ingestion r) \<inter> (facility_values raw ''Facility Name''
            \<inter> facility_values ing (ingestion_facility_column ing)) = {}"
proof -
  let ?R = "facility_values raw ''Facility Name''"
  let ?I = "facility_values ing (ingestion_facility_column ing)"
  let ?r = "facility_set proc raw ''Facility Name''"
  let ?i = "facility_set proc ing (ingestion_facility_column ing)"
  have d: "distinct ?r" "distinct ?i"
    by (simp_all add: facility_set_def)
  have 1: "card (?R \<inter> ?I) + card (?R - ?I) = card ?R"
    by (rule card_Int_Diff[OF finite_facility_values])
  have 2: "card (?R \<inter> ?I) + card (?I - ?R) = card ?I"
    using card_Int_Diff[OF finite_facility_values, of ing "ingestion_facility_column ing" ?R]
    by (simp add: Int_commute)
  have l: "length (set_inter ?r ?i) = card (?R \<inter> ?I)"
    "length (set_minus ?r ?i) = card (?R - ?I)" "length (set_minus ?i ?r) = card (?I - ?R)"
    using d by (simp_all add: length_set_inter length_set_minus set_facility_set)
  have m: "set (set_minus ?r ?i) = ?R - ?I" "set (set_minus ?i ?r) = ?I - ?R"
    by (auto simp: set_minus_def set_facility_set)
  have c: "compare_facility_names proc raw ing =
             Inr \<lparr> raw_facilities_count = length ?r, ingestion_facilities_count = length ?i,
                   common_facilities_count = length (set_inter ?r ?i),
                   missing_in_raw = set_minus ?i ?r, missing_in_ingestion = set_minus ?r ?i,
                   missing_in_raw_count = length (set_minus ?i ?r),
                   missing_in_ingestion_count = length (set_minus ?r ?i) \<rparr>"
    using assms
    by (auto simp: compare_facility_names_def Let_def ingestion_facility_column_def)
  show ?thesis
    unfolding c using 1 2
    by (auto simp: l m length_facility_set)
qed

theorem compare_facility_names_counts_witness:
  "Text ''Facility Name'' \<in> set (columns raw_A)
   \<and> (Text ''Facility Name'' \<in> set (columns ing_A) \<or> Text ''Facility'' \<in> set (columns ing_A))
   \<and> (\<exists>r. compare_facility_names process_A raw_A ing_A = Inr r
        \<and> raw_facilities_count r = 2 \<and> ingestion_facilities_count r = 2
        \<and> common_facilities_count r = 1
        \<and> missing_in_raw r = [Str ''Plant C''] \<and> missing_in_ingestion r = [Str ''Plant B'']
        \<and> common_facilities_count r + missing_in_ingestion_count r = raw_facilities_count r
        \<and> common_facilities_count r + missing_in_raw_count r = ingestion_facilities_count r)"
proof -
  have h1: "Text ''Facility Name'' \<in> set (columns raw_A)"
    by (simp add: raw_A_def)
  have h2: "Text ''Facility Name'' \<in> set (columns ing_A) \<or> Text ''Facility'' \<in> set (columns ing_A)"
    by (simp add: ing_A_def)
  have v: "compare_facility_names process_A raw_A ing_A =
             Inr \<lparr> raw_facilities_count = 2, ingestion_facilities_count = 2,
                   common_facilities_count = 1, missing_in_raw = [Str ''Plant C''],
                   missing_in_ingestion = [Str ''Plant B''],
                   missing_in_raw_count = 1, missing_in_ingestion_count = 1 \<rparr>"
    by (simp add: compare_facility_names_def facility_set_def py_set_def set_minus_def
          set_inter_def process_A_def raw_A_def ing_A_def dropna_def cell_at_def cell_of_def
          Let_def)
  from compare_facility_names_counts [OF h1 h2, of process_A] obtain r where
    r: "compare_facility_names process_A raw_A ing_A = Inr r"
    and c1: "common_facilities_count r + missing_in_ingestion_count r = raw_facilities_count r"
    and c2: "common_facilities_count r + missing_in_raw_count r = ingestion_facilities_count r"
    by blast
  from r v have "r = \<lparr> raw_facilities_count = 2, ingestion_facilities_count = 2,
                   common_facilities_count = 1, missing_in_raw = [Str ''Plant C''],
                   missing_in_ingestion = [Str ''Plant B''],
                   missing_in_raw_count = 1, missing_in_ingestion_count = 1 \<rparr>"
    by simp
  with h1 h2 r c1 c2 show ?thesis by simp
qed

subsection \<open>Quality analysis\<close>

text \<open>
  C10. The quality analysis does not depend on the raw table: with the same ingestion
  table, any two raw tables give the same result, issue list and duplicate rows alike.
\<close>

theorem analyze_data_quality_ignores_raw:
  "analyze_data_quality raw1 ing = analyze_data_quality raw2 ing"
  by (simp add: analyze_data_quality_def)

subsection \<open>Record matching\<close>

lemma first_hit:
  assumes "filter P xs = y # ys"
  shows "\<exists>j < length xs. xs ! j = y \<and> P y \<and> (\<forall>k < j. \<not> P (xs ! k))"
proof -
  from assms obtain us vs where xs: "xs = us @ y # vs"
    and us: "\<forall>u \<in> set us. \<not> P u" and y: "P y"
    by (auto simp: filter_eq_Cons_iff)
  have "length us < length xs" using xs by simp
  moreover have "xs ! length us = y" using xs by simp
  moreover have "\<forall>k < length us. \<not> P (xs ! k)"
    using xs us by (simp add: nth_append)
  ultimately show ?thesis using y by blast
qed

lemma find_filter:
  "find P xs = (case filter P xs of [] \<Rightarrow> None | x # rest \<Rightarrow> Some x)"
  by (induction xs) auto

lemma cell_sub_returns: "(\<exists>d. cell_sub a b = Inr d) \<longleftrightarrow> \<not> text_cell a \<and> \<not> text_cell b"
  by (cases a; cases b) auto

lemma text_cell_iff: "text_cell c \<longleftrightarrow> (\<exists>s. c = Str s)"
  by (cases c) auto

lemma cell_sub_raises: "text_cell a \<or> text_cell b \<Longrightarrow> cell_sub a b = Inl TypeError"
  by (cases a; cases b) auto

lemma rows_schema_columns:
  assumes "identify_ingestion_file_type ing = ''Monthly Data in Rows''"
  shows "Text (ingestion_facility_column ing) \<in> set (columns ing)"
    and "Text ''Scope'' \<in> set (columns ing)"
    and "Text ''Resource Name'' \<in> set (columns ing)" and "Text ''Month'' \<in> set (columns ing)"
    and "Text ''Year'' \<in> set (columns ing)" and "Text ''Quantity'' \<in> set (columns ing)"
  using assms
  by (auto simp: identify_ingestion_file_type_guards type1_indicators_def
        ingestion_facility_column_def failed_def split: if_splits sum.splits)

text \<open>One pass of the loop body appends one record and moves the counters together.\<close>

lemma match_step_counts:
  assumes "match_step raw ing fc st r = Inr st'"
  shows "matched_rows st' + unmatched_rows st' = Suc (matched_rows st + unmatched_rows st)
       \<and> quantity_matches st' + quantity_mismatches st' + matched_rows st
           = quantity_matches st + quantity_mismatches st + matched_rows st'
       \<and> length (comparison_results st') = Suc (length (comparison_results st))"
  using assms
  by (auto simp: match_step_def and_then_def split: sum.splits list.splits if_splits)

lemma match_loop_counts:
  assumes "match_loop raw ing fc st rs = Inr st'"
  shows "matched_rows st' + unmatched_rows st' = matched_rows st + unmatched_rows st + length rs
       \<and> quantity_matches st' + quantity_mismatches st' + matched_rows st
           = quantity_matches st + quantity_mismatches st + matched_rows st'
       \<and> length (comparison_results st') = length (comparison_results st) + length rs"
  using assms
proof (induction rs arbitrary: st)
  case Nil
  then show ?case by simp
next
  case (Cons r rs)
  from Cons.prems obtain st1 where s1: "match_step raw ing fc st r = Inr st1"
    and l: "match_loop raw ing fc st1 rs = Inr st'"
    by (auto simp: and_then_def split: sum.splits)
  from match_step_counts[OF s1] Cons.IH[OF l] show ?case by simp
qed

text \<open>The loop body on one ingestion row: its six reads of the ingestion row succeed
  under the schema, and what is left is the search in raw and the subtraction.\<close>

lemma match_step_rows_schema:
  assumes t: "identify_ingestion_file_type ing = ''Monthly Data in Rows''"
  shows "match_step raw ing (ingestion_facility_column ing) st r =
     and_then (raw_match raw (cell_at (columns ing) r (ingestion_facility_column ing))
                 (cell_at (columns ing) r ''Resource Name'')
                 (cell_at (columns ing) r ''Month'') (cell_at (columns ing) r ''Year''))
       (\<lambda>matching. case matching of
          first # rest \<Rightarrow>
            and_then (row_get raw first ''Quantity'') (\<lambda>raw_q.
            and_then (cell_sub raw_q (cell_at (columns ing) r ''Quantity'')) (\<lambda>diff.
              Inr (st\<lparr> matched_rows := matched_rows st + 1,
                       quantity_matches :=
                         (if cell_eq raw_q (cell_at (columns ing) r ''Quantity'')
                          then quantity_matches st + 1 else quantity_matches st),
                       quantity_mismatches :=
                         (if cell_eq raw_q (cell_at (columns ing) r ''Quantity'')
                          then quantity_mismatches st else quantity_mismatches st + 1),
                       comparison_results := comparison_results st @
                         [\<lparr> facility_name =
                              cell_at (columns ing) r (ingestion_facility_column ing),
                            resource_name = cell_at (columns ing) r ''Resource Name'',
                            month = cell_at (columns ing) r ''Month'',
                            year = cell_at (columns ing) r ''Year'',
                            raw_quantity = Some raw_q,
                            ingestion_quantity = cell_at (columns ing) r ''Quantity'',
                            difference = Some diff,
                            match_status =
                              (if cell_eq raw_q (cell_at (columns ing) r ''Quantity'')
                               then ''Match'' else ''Mismatch'') \<rparr>] \<rparr>)))
        | [] \<Rightarrow>
            Inr (st\<lparr> unmatched_rows := unmatched_rows st + 1,
                     comparison_results := comparison_results st @
                       [\<lparr> facility_name =
                            cell_at (columns ing) r (ingestion_facility_column ing),
                          resource_name = cell_at (columns ing) r ''Resource Name'',
                          month = cell_at (columns ing) r ''Month'',
                          year = cell_at (columns ing) r ''Year'',
                          raw_quantity = None,
                          ingestion_quantity = cell_at (columns ing) r ''Quantity'',
                          difference = None,
                          match_status = ''No Match in Raw Data'' \<rparr>] \<rparr>))"
  using rows_schema_columns[OF t]
  by (simp add: match_step_def and_then_def row_get_def)

lemma raw_match_keys:
  assumes "set (map Text [''Facility Name'', ''Resource Name'', ''Month'', ''Year''])
             \<subseteq> set (columns raw)"
  shows "raw_match raw (cell_at (columns ing) r (ingestion_facility_column ing))
           (cell_at (columns ing) r ''Resource Name'')
           (cell_at (columns ing) r ''Month'') (cell_at (columns ing) r ''Year'')
         = Inr (filter (hits raw ing r) (rows raw))"
proof -
  have "hits raw ing r =
          key_equal (columns raw) (cell_at (columns ing) r (ingestion_facility_column ing))
            (cell_at (columns ing) r ''Resource Name'') (cell_at (columns ing) r ''Month'')
            (cell_at (columns ing) r ''Year'')"
    by (simp add: hits_def)
  then show ?thesis
    using assms by (simp add: raw_match_def Let_def)
qed

lemma raw_match_no_keys:
  assumes "\<not> set (map Text [''Facility Name'', ''Resource Name'', ''Month'', ''Year''])
             \<subseteq> set (columns raw)"
  shows "\<exists>raised. raw_match raw fac res mon yr = Inl raised"
  using assms by (auto simp: raw_match_def Let_def)

text \<open>The loop body returns exactly on the rows that can be matched, and its record is
  then the one the specification describes.\<close>

lemma match_step_describes:
  assumes t: "identify_ingestion_file_type ing = ''Monthly Data in Rows''"
      and k: "set (map Text [''Facility Name'', ''Resource Name'', ''Month'', ''Year''])
                \<subseteq> set (columns raw)"
      and m: "row_matchable raw ing r"
  shows "\<exists>st' rec. match_step raw ing (ingestion_facility_column ing) st r = Inr st'
           \<and> comparison_results st' = comparison_results st @ [rec]
           \<and> describes_row raw ing r rec"
proof -
  let ?q = "cell_at (columns ing) r ''Quantity''"
  have h: "key_equal (columns raw) (cell_at (columns ing) r (ingestion_facility_column ing))
             (cell_at (columns ing) r ''Resource Name'') (cell_at (columns ing) r ''Month'')
             (cell_at (columns ing) r ''Year'') = hits raw ing r"
    by (simp add: hits_def)
  show ?thesis
  proof (cases "filter (hits raw ing r) (rows raw)")
    case Nil
    then have none: "\<forall>raw_row \<in> set (rows raw). \<not> hits raw ing r raw_row"
      by (simp add: filter_empty_conv)
    show ?thesis
      using Nil none
      by (simp add: match_step_rows_schema[OF t] raw_match_keys[OF k] and_then_def
            describes_row_def Let_def h)
  next
    case (Cons y ys)
    from first_hit[OF Cons] obtain j where j: "j < length (rows raw)" "rows raw ! j = y"
      "hits raw ing r y" "\<forall>k < j. \<not> hits raw ing r (rows raw ! k)"
      by blast
    have yin: "y \<in> set (rows raw)" using j by auto
    from m Cons have q: "Text ''Quantity'' \<in> set (columns raw)"
      and nt: "\<not> text_cell (cell_at (columns raw) y ''Quantity'')" "\<not> text_cell ?q"
      by (simp_all add: row_matchable_def find_filter)
    from nt obtain d where d: "cell_sub (cell_at (columns raw) y ''Quantity'') ?q = Inr d"
      using cell_sub_returns by blast
    have some: "\<not> (\<forall>raw_row \<in> set (rows raw). \<not> hits raw ing r raw_row)"
      using yin j by blast
    have ex: "\<exists>j < length (rows raw). hits raw ing r (rows raw ! j)
                \<and> (\<forall>k < j. \<not> hits raw ing r (rows raw ! k)) \<and> rows raw ! j = y"
      using j by blast
    show ?thesis
      using q Cons d some ex
      by (auto simp: match_step_rows_schema[OF t] raw_match_keys[OF k] and_then_def
            row_get_def describes_row_def Let_def h)
  qed
qed

lemma match_step_raises:
  assumes t: "identify_ingestion_file_type ing = ''Monthly Data in Rows''"
      and n: "\<not> (set (map Text [''Facility Name'', ''Resource Name'', ''Month'', ''Year''])
                   \<subseteq> set (columns raw)
                 \<and> row_matchable raw ing r)"
  shows "\<exists>raised. match_step raw ing (ingestion_facility_column ing) st r = Inl raised"
proof (cases "set (map Text [''Facility Name'', ''Resource Name'', ''Month'', ''Year''])
                \<subseteq> set (columns raw)")
  case False
  from raw_match_no_keys[OF False] obtain raised where
    "raw_match raw (cell_at (columns ing) r (ingestion_facility_column ing))
       (cell_at (columns ing) r ''Resource Name'')
       (cell_at (columns ing) r ''Month'') (cell_at (columns ing) r ''Year'') = Inl raised"
    by blast
  then show ?thesis
    by (simp add: match_step_rows_schema[OF t] and_then_def)
next
  case True
  with n have "\<not> row_matchable raw ing r" by simp
  then obtain y ys where f: "filter (hits raw ing r) (rows raw) = y # ys"
    and b: "Text ''Quantity'' \<notin> set (columns raw)
            \<or> text_cell (cell_at (columns raw) y ''Quantity'')
            \<or> text_cell (cell_at (columns ing) r ''Quantity'')"
    by (auto simp: row_matchable_def find_filter split: list.splits)
  show ?thesis
  proof (cases "Text ''Quantity'' \<in> set (columns raw)")
    case False
    then show ?thesis
      using f
      by (simp add: match_step_rows_schema[OF t] raw_match_keys[OF True] and_then_def
            row_get_def)
  next
    case q: True
    with b have "cell_sub (cell_at (columns raw) y ''Quantity'')
                   (cell_at (columns ing) r ''Quantity'') = Inl TypeError"
      by (simp add: cell_sub_raises)
    then show ?thesis
      using f q
      by (simp add: match_step_rows_schema[OF t] raw_match_keys[OF True] and_then_def
            row_get_def)
  qed
qed

lemma match_loop_describes:
  assumes t: "identify_ingestion_file_type ing = ''Monthly Data in Rows''"
      and k: "set (map Text [''Facility Name'', ''Resource Name'', ''Month'', ''Year''])
                \<subseteq> set (columns raw)"
      and m: "\<forall>r \<in> set rs. row_matchable raw ing r"
  shows "\<exists>st' recs. match_loop raw ing (ingestion_facility_column ing) st rs = Inr st'
           \<and> comparison_results st' = comparison_results st @ recs
           \<and> list_all2 (describes_row raw ing) rs recs"
  using m
proof (induction rs arbitrary: st)
  case Nil
  then show ?case by simp
next
  case (Cons r rs)
  from Cons.prems have mr: "row_matchable raw ing r"
    by simp
  from match_step_describes[OF t k mr, of st] obtain st1 rec where
    s1: "match_step raw ing (ingestion_facility_column ing) st r = Inr st1"
    and r1: "comparison_results st1 = comparison_results st @ [rec]"
    and d1: "describes_row raw ing r rec"
    by blast
  from Cons.IH[of st1] Cons.prems obtain st' recs where
    l: "match_loop raw ing (ingestion_facility_column ing) st1 rs = Inr st'"
    and r2: "comparison_results st' = comparison_results st1 @ recs"
    and d2: "list_all2 (describes_row raw ing) rs recs"
    by auto
  have "match_loop raw ing (ingestion_facility_column ing) st (r # rs) = Inr st'"
    using s1 l by (simp add: and_then_def)
  moreover have "comparison_results st' = comparison_results st @ (rec # recs)"
    using r1 r2 by simp
  moreover have "list_all2 (describes_row raw ing) (r # rs) (rec # recs)"
    using d1 d2 by simp
  ultimately show ?case by blast
qed

lemma match_loop_raises:
  assumes t: "identify_ingestion_file_type ing = ''Monthly Data in Rows''"
      and n: "\<exists>r \<in> set rs.
                \<not> (set (map Text [''Facility Name'', ''Resource Name'', ''Month'', ''Year''])
                     \<subseteq> set (columns raw)
                   \<and> row_matchable raw ing r)"
  shows "\<exists>raised. match_loop raw ing (ingestion_facility_column ing) st rs = Inl raised"
  using n
proof (induction rs arbitrary: st)
  case Nil
  then show ?case by simp
next
  case (Cons r rs)
  show ?case
  proof (cases "match_step raw ing (ingestion_facility_column ing) st r")
    case (Inl raised)
    then show ?thesis by (simp add: and_then_def)
  next
    case (Inr st1)
    with match_step_raises[OF t, of raw r st]
    have "set (map Text [''Facility Name'', ''Resource Name'', ''Month'', ''Year''])
            \<subseteq> set (columns raw) \<and> row_matchable raw ing r"
      by auto
    with Cons.prems have "\<exists>r \<in> set rs.
                \<not> (set (map Text [''Facility Name'', ''Resource Name'', ''Month'', ''Year''])
                     \<subseteq> set (columns raw)
                   \<and> row_matchable raw ing r)"
      by auto
    from Cons.IH[OF this, of st1] Inr show ?thesis
      by (simp add: and_then_def)
  qed
qed

lemma matchable_rows:
  "matchable raw ing \<longleftrightarrow>
     (\<forall>r \<in> set (rows ing).
        set (map Text [''Facility Name'', ''Resource Name'', ''Month'', ''Year''])
          \<subseteq> set (columns raw)
        \<and> row_matchable raw ing r)"
  by (cases "rows ing") (auto simp: matchable_def)

lemma numeric_matchable:
  assumes "raw_has_key_columns raw" "numeric_column raw ''Quantity''"
    "numeric_column ing ''Quantity''"
  shows "matchable raw ing"
proof -
  have "row_matchable raw ing r" if r: "r \<in> set (rows ing)" for r
  proof (cases "find (hits raw ing r) (rows raw)")
    case None
    then show ?thesis by (simp add: row_matchable_def)
  next
    case (Some y)
    then have "y \<in> set (rows raw)"
      by (auto simp: find_Some_iff)
    then have "\<not> text_cell (cell_at (columns raw) y ''Quantity'')"
      using assms(2) by (force simp: numeric_column_def text_cell_iff)
    moreover have "\<not> text_cell (cell_at (columns ing) r ''Quantity'')"
      using assms(3) r by (force simp: numeric_column_def text_cell_iff)
    ultimately show ?thesis
      using Some assms(1) by (simp add: row_matchable_def raw_has_key_columns_def)
  qed
  then show ?thesis
    using assms(1) by (simp add: matchable_def raw_has_key_columns_def)
qed

lemma map_ghg_emissions_data_sample:
  "map_ghg_emissions_data raw_rows ing_rows ''Monthly Data in Rows''
     = Inr (RowsMapping rows_result)"
  by (simp add: map_ghg_emissions_data_def raw_rows_def ing_rows_def rows_result_def
        match_step_def and_then_def row_get_def raw_match_def key_equal_def cell_at_def cell_of_def
        initial_state_def Let_def)

lemma matching_sample_conditions:
  "identify_ingestion_file_type ing_rows = ''Monthly Data in Rows''
   \<and> raw_has_key_columns raw_rows
   \<and> numeric_column raw_rows ''Quantity'' \<and> numeric_column ing_rows ''Quantity''"
  by (simp add: identify_ingestion_file_type_def type1_indicators_def
        raw_has_key_columns_def numeric_column_def raw_rows_def ing_rows_def cell_at_def
        cell_of_def)

text \<open>
  C1, as stated, fails: against a raw table without the key columns, and against a raw
  table whose matching row holds a text quantity, record matching returns an error value
  and no match record at all, although the ingestion table has the Monthly Data in Rows
  schema.
\<close>

theorem map_ghg_emissions_data_error_counterexample:
  "identify_ingestion_file_type ing_rows = ''Monthly Data in Rows''
   \<and> map_ghg_emissions_data no_table ing_rows ''Monthly Data in Rows''
       = Inl (ErrorExn ''Error mapping GHG emissions data: '' (KeyError ''Facility Name''))
   \<and> map_ghg_emissions_data raw_text ing_rows ''Monthly Data in Rows''
       = Inl (ErrorExn ''Error mapping GHG emissions data: '' TypeError)"
  by (simp add: map_ghg_emissions_data_def raw_text_def no_table_def ing_rows_def
        match_step_def and_then_def row_get_def raw_match_def key_equal_def cell_at_def cell_of_def
        initial_state_def Let_def identify_ingestion_file_type_def type1_indicators_def)

text \<open>
  C1, amended. For every raw table and every ingestion table of the Monthly Data in Rows
  schema, record matching returns a mapping exactly when the tables can be matched: the
  ingestion table has no row, or raw has the columns Facility Name, Resource Name, Month
  and Year and, for every ingestion row with a hit in raw, raw has a Quantity column and
  neither the quantity of the first hit nor that of the ingestion row is text. The mapping
  then has one match record per ingestion row, in order, and each record is the one
  \<open>describes_row\<close> states for its row. In every other case record matching returns an
  error value and no match record.
\<close>

theorem map_ghg_emissions_data_records:
  assumes "identify_ingestion_file_type ing = ''Monthly Data in Rows''"
  shows "(matchable raw ing \<longrightarrow>
            (\<exists>m. map_ghg_emissions_data raw ing ''Monthly Data in Rows'' = Inr (RowsMapping m)
               \<and> list_all2 (describes_row raw ing) (rows ing) (comparison_results m)))
       \<and> (\<not> matchable raw ing \<longrightarrow>
            (\<exists>raised. map_ghg_emissions_data raw ing ''Monthly Data in Rows''
               = Inl (ErrorExn ''Error mapping GHG emissions data: '' raised)))"
proof (intro conjI impI)
  assume m: "matchable raw ing"
  show "\<exists>m. map_ghg_emissions_data raw ing ''Monthly Data in Rows'' = Inr (RowsMapping m)
          \<and> list_all2 (describes_row raw ing) (rows ing) (comparison_results m)"
  proof (cases "rows ing")
    case Nil
    then show ?thesis
      by (simp add: map_ghg_emissions_data_def Let_def initial_state_def)
  next
    case (Cons r rs)
    with m have k: "set (map Text [''Facility Name'', ''Resource Name'', ''Month'', ''Year''])
                      \<subseteq> set (columns raw)"
      and a: "\<forall>r \<in> set (rows ing). row_matchable raw ing r"
      by (auto simp: matchable_def)
    from match_loop_describes[OF assms k a, of initial_state] obtain st' recs where
      l: "match_loop raw ing (ingestion_facility_column ing) initial_state (rows ing) = Inr st'"
      and r: "comparison_results st' = comparison_results initial_state @ recs"
      and d: "list_all2 (describes_row raw ing) (rows ing) recs"
      by blast
    have "comparison_results st' = recs"
      using r by (simp add: initial_state_def)
    with l d show ?thesis
      by (simp add: map_ghg_emissions_data_def Let_def ingestion_facility_column_def)
  qed
next
  assume "\<not> matchable raw ing"
  then have "\<exists>r \<in> set (rows ing).
                \<not> (set (map Text [''Facility Name'', ''Resource Name'', ''Month'', ''Year''])
                     \<subseteq> set (columns raw)
                   \<and> row_matchable raw ing r)"
    by (simp add: matchable_rows)
  from match_loop_raises[OF assms this, of initial_state] obtain raised where
    "match_loop raw ing (ingestion_facility_column ing) initial_state (rows ing) = Inl raised"
    by blast
  then show "\<exists>raised. map_ghg_emissions_data raw ing ''Monthly Data in Rows''
               = Inl (ErrorExn ''Error mapping GHG emissions data: '' raised)"
    by (simp add: map_ghg_emissions_data_def Let_def ingestion_facility_column_def)
qed

theorem map_ghg_emissions_data_records_witness:
  "identify_ingestion_file_type ing_rows = ''Monthly Data in Rows''
   \<and> matchable raw_rows ing_rows
   \<and> map_ghg_emissions_data raw_rows ing_rows ''Monthly Data in Rows''
       = Inr (RowsMapping rows_result)
   \<and> list_all2 (describes_row raw_rows ing_rows) (rows ing_rows)
       (comparison_results rows_result)
   \<and> \<not> matchable raw_text ing_rows
   \<and> isl (map_ghg_emissions_data raw_text ing_rows ''Monthly Data in Rows'')"
proof -
  have t: "identify_ingestion_file_type ing_rows = ''Monthly Data in Rows''"
    by (simp add: matching_sample_conditions)
  have c: "matchable raw_rows ing_rows"
    using matching_sample_conditions by (simp add: numeric_matchable)
  have n: "\<not> matchable raw_text ing_rows"
    by (simp add: matchable_def row_matchable_def hits_def key_equal_def raw_text_def
          ing_rows_def ingestion_facility_column_def cell_at_def cell_of_def)
  from map_ghg_emissions_data_records [OF t, of raw_rows] c obtain m where
    m: "map_ghg_emissions_data raw_rows ing_rows ''Monthly Data in Rows'' = Inr (RowsMapping m)"
    and d: "list_all2 (describes_row raw_rows ing_rows) (rows ing_rows) (comparison_results m)"
    by blast
  from m have e: "m = rows_result"
    by (simp add: map_ghg_emissions_data_sample)
  from map_ghg_emissions_data_records [OF t, of raw_text] n
  have "isl (map_ghg_emissions_data raw_text ing_rows ''Monthly Data in Rows'')"
    by auto
  with t c n d e show ?thesis
    by (simp add: map_ghg_emissions_data_sample)
qed

text \<open>
  C2. Whenever record matching returns a row mapping, its counters satisfy
  matched_rows + unmatched_rows = total_ingestion_rows and
  quantity_matches + quantity_mismatches = matched_rows, the total being the number of
  ingestion rows; and it does return one under the conditions of C1.
\<close>

theorem map_ghg_emissions_data_counters:
  "(\<forall>m. map_ghg_emissions_data raw ing ''Monthly Data in Rows'' = Inr (RowsMapping m)
        \<longrightarrow> matched_rows m + unmatched_rows m = total_ingestion_rows m
            \<and> quantity_matches m + quantity_mismatches m = matched_rows m
            \<and> total_ingestion_rows m = length (rows ing))
   \<and> (identify_ingestion_file_type ing = ''Monthly Data in Rows''
        \<and> raw_has_key_columns raw
        \<and> numeric_column raw ''Quantity'' \<and> numeric_column ing ''Quantity''
      \<longrightarrow> (\<exists>m. map_ghg_emissions_data raw ing ''Monthly Data in Rows''
                  = Inr (RowsMapping m)))"
proof (intro conjI allI impI)
  fix m
  assume a: "map_ghg_emissions_data raw ing ''Monthly Data in Rows'' = Inr (RowsMapping m)"
  then obtain st where
    l: "match_loop raw ing (ingestion_facility_column ing) initial_state (rows ing) = Inr st"
    and m: "m = \<lparr> comparison_results = comparison_results st,
                    matched_rows = matched_rows st,
                    unmatched_rows = unmatched_rows st,
                    quantity_matches = quantity_matches st,
                    quantity_mismatches = quantity_mismatches st,
                    total_ingestion_rows = length (rows ing) \<rparr>"
    by (auto simp: map_ghg_emissions_data_def Let_def ingestion_facility_column_def
          split: sum.splits)
  from match_loop_counts[OF l]
  show "matched_rows m + unmatched_rows m = total_ingestion_rows m"
    and "quantity_matches m + quantity_mismatches m = matched_rows m"
    and "total_ingestion_rows m = length (rows ing)"
    by (simp_all add: m initial_state_def)
next
  assume a: "identify_ingestion_file_type ing = ''Monthly Data in Rows''
        \<and> raw_has_key_columns raw
        \<and> numeric_column raw ''Quantity'' \<and> numeric_column ing ''Quantity''"
  then have t: "identify_ingestion_file_type ing = ''Monthly Data in Rows''"
    and c: "matchable raw ing"
    by (simp_all add: numeric_matchable)
  have "\<exists>st'. match_loop raw ing (ingestion_facility_column ing) initial_state (rows ing)
               = Inr st'"
  proof (cases "rows ing")
    case Nil
    then show ?thesis by simp
  next
    case (Cons r rs)
    with c have "set (map Text [''Facility Name'', ''Resource Name'', ''Month'', ''Year''])
                   \<subseteq> set (columns raw)"
      and "\<forall>r \<in> set (rows ing). row_matchable raw ing r"
      by (auto simp: matchable_def)
    from match_loop_describes[OF t this, of initial_state] show ?thesis
      by blast
  qed
  then show "\<exists>m. map_ghg_emissions_data raw ing ''Monthly Data in Rows'' = Inr (RowsMapping m)"
    by (auto simp: map_ghg_emissions_data_def Let_def ingestion_facility_column_def)
qed

theorem map_ghg_emissions_data_counters_witness:
  "map_ghg_emissions_data raw_rows ing_rows ''Monthly Data in Rows''
     = Inr (RowsMapping rows_result)
   \<and> matched_rows rows_result = 3 \<and> unmatched_rows rows_result = 1
   \<and> quantity_matches rows_result = 1 \<and> quantity_mismatches rows_result = 2
   \<and> matched_rows rows_result + unmatched_rows rows_result = total_ingestion_rows rows_result
   \<and> quantity_matches rows_result + quantity_mismatches rows_result = matched_rows rows_result
   \<and> total_ingestion_rows rows_result = length (rows ing_rows)"
proof -
  have v: "matched_rows rows_result = 3 \<and> unmatched_rows rows_result = 1
         \<and> quantity_matches rows_result = 1 \<and> quantity_mismatches rows_result = 2"
    by (simp add: rows_result_def)
  from map_ghg_emissions_data_counters [of raw_rows ing_rows]
       map_ghg_emissions_data_sample v
  show ?thesis by blast
qed

subsection \<open>Duplicate detection\<close>

lemma identify_columns_found:
  assumes "identify_ingestion_file_type ing = ''Monthly Data in Columns''"
  shows "month_columns (columns ing) = Inr (filter holds_month_token (columns ing))"
    and "Text ''Scope'' \<in> set (columns ing)"
proof -
  from assms have "\<not> failed (identify_ingestion_file_type ing)"
    by (simp add: failed_def)
  moreover from assms have h: "columns_layout_header ing"
    by (auto simp: identify_ingestion_file_type_guards split: if_splits)
  ultimately have "list_all is_text (columns ing)"
    by (auto simp: identify_ingestion_file_type_failed list_all_iff)
  then show "month_columns (columns ing) = Inr (filter holds_month_token (columns ing))"
    by (rule month_columns_text)
  show "Text ''Scope'' \<in> set (columns ing)"
    using h by (simp add: columns_layout_header_def type2_indicators_def)
qed

lemma filter_not_in_filter:
  "filter (\<lambda>col. col \<in> set xs \<longrightarrow> \<not> P col) xs = filter (\<lambda>col. \<not> P col) xs"
  by (rule filter_cong) auto

lemma analyze_data_quality_unfold:
  "analyze_data_quality raw ing =
     duplicate_check ing (identifying_columns ing) (duplicate_wording ing)
       (null_issues ing (identifying_columns ing))"
proof (cases "identify_ingestion_file_type ing = ''Monthly Data in Columns''")
  case True
  then show ?thesis
    by (simp add: analyze_data_quality_def identifying_columns_def duplicate_wording_def
          Let_def identify_columns_found(1)[OF True] filter_not_in_filter)
next
  case False
  then show ?thesis
    by (simp add: analyze_data_quality_def identifying_columns_def duplicate_wording_def
          Let_def)
qed

lemma not_month_Scope: "\<not> is_month_column ''Scope''"
  by (simp add: is_month_column_def month_tokens_def sublist_code)

lemma identifying_columns_subset: "set (identifying_columns ing) \<subseteq> set (columns ing)"
  by (auto simp: identifying_columns_def)

lemma identifying_columns_nonempty:
  assumes "columns ing \<noteq> []"
  shows "identifying_columns ing \<noteq> []"
proof (cases "identify_ingestion_file_type ing = ''Monthly Data in Rows''")
  case True
  then have "Text ''Scope'' \<in> set (columns ing)"
    by (rule rows_schema_columns)
  then have "Text ''Scope'' \<in> set (identifying_columns ing)"
    using True by (simp add: identifying_columns_def)
  then show ?thesis by auto
next
  case False
  show ?thesis
  proof (cases "identify_ingestion_file_type ing = ''Monthly Data in Columns''")
    case True
    then have "Text ''Scope'' \<in> set (columns ing)"
      by (rule identify_columns_found)
    then have "Text ''Scope'' \<in> set (identifying_columns ing)"
      using True not_month_Scope by (simp add: identifying_columns_def)
    then show ?thesis by auto
  next
    case f2: False
    with False assms show ?thesis by (simp add: identifying_columns_def)
  qed
qed

lemma duplicated_identifying:
  "duplicated ing (identifying_columns ing) k =
     Inr (if columns ing = [] \<or> rows ing = [] then []
          else case k of KeepFirst \<Rightarrow> marked_after [] (map (identity ing) (rows ing))
                       | KeepFalse \<Rightarrow> marked_all (map (identity ing) (rows ing)))"
proof (cases "columns ing = [] \<or> rows ing = []")
  case True
  then show ?thesis by (simp add: duplicated_def)
next
  case False
  then have ne: "identifying_columns ing \<noteq> []"
    using identifying_columns_nonempty by blast
  have "filter (\<lambda>col. col \<notin> set (columns ing)) (identifying_columns ing) = []"
    using identifying_columns_subset[of ing] by (auto simp: filter_empty_conv)
  moreover have e: "projection (columns ing) (identifying_columns ing) = identity ing"
    by (rule ext) (simp add: identity_def)
  ultimately show ?thesis
    using False ne by (simp add: duplicated_def Let_def e)
qed

lemma length_marked_after: "length (marked_after seen ks) = length ks"
  by (induction ks arbitrary: seen) auto

lemma marked_after_nth:
  "i < length ks \<Longrightarrow>
     marked_after seen ks ! i \<longleftrightarrow> ks ! i \<in> set seen \<or> ks ! i \<in> set (take i ks)"
proof (induction ks arbitrary: seen i)
  case Nil
  then show ?case by simp
next
  case (Cons k ks)
  show ?case
  proof (cases i)
    case 0
    then show ?thesis by simp
  next
    case (Suc i')
    with Cons.prems have "i' < length ks" by simp
    from Cons.IH[OF this, of "k # seen"] Suc show ?thesis by auto
  qed
qed

lemma marked_after_count:
  "length (filter id (marked_after [] ks))
     = length (filter (\<lambda>i. ks ! i \<in> set (take i ks)) [0..<length ks])"
proof -
  have "marked_after [] ks = map (\<lambda>i. ks ! i \<in> set (take i ks)) [0..<length ks]"
    by (rule nth_equalityI) (simp_all add: length_marked_after marked_after_nth)
  then show ?thesis
    by (simp add: filter_map o_def)
qed

lemma select_marked:
  "map fst (filter snd (zip xs (map g xs))) = filter g xs"
  by (induction xs) auto

lemma repeated_rows_count:
  "length (filter id (marked_after [] (map (identity ing) (rows ing)))) = repeated_rows ing"
  unfolding marked_after_count repeated_rows_def repeats_earlier_def
  by (rule arg_cong[where f=length], rule filter_cong) (auto simp: take_map)

lemma repeat_iff_not_distinct:
  "(\<exists>i < length ks. ks ! i \<in> set (take i ks)) \<longleftrightarrow> \<not> distinct ks"
proof
  assume "\<exists>i < length ks. ks ! i \<in> set (take i ks)"
  then obtain i j where ij: "i < length ks" "j < i" "ks ! j = ks ! i"
    by (auto simp: in_set_conv_nth)
  show "\<not> distinct ks"
  proof
    assume "distinct ks"
    with ij have "j = i"
      by (simp add: nth_eq_iff_index_eq)
    with ij show False by simp
  qed
next
  assume "\<not> distinct ks"
  then obtain i j where ij: "i < length ks" "j < length ks" "i \<noteq> j" "ks ! i = ks ! j"
    by (auto simp: distinct_conv_nth)
  show "\<exists>i < length ks. ks ! i \<in> set (take i ks)"
  proof (cases "i < j")
    case True
    with ij have "ks ! j \<in> set (take j ks)"
      by (auto simp: in_set_conv_nth intro!: exI[of _ i])
    with ij show ?thesis by blast
  next
    case False
    with ij have "j < i" by simp
    with ij have "ks ! i \<in> set (take i ks)"
      by (auto simp: in_set_conv_nth intro!: exI[of _ j])
    with ij show ?thesis by blast
  qed
qed

lemma twice_iff_not_distinct:
  "(\<exists>k \<in> set ks. 2 \<le> length (filter (\<lambda>k'. k' = k) ks)) \<longleftrightarrow> \<not> distinct ks"
proof
  assume "\<exists>k \<in> set ks. 2 \<le> length (filter (\<lambda>k'. k' = k) ks)"
  then obtain k where k: "2 \<le> length (filter (\<lambda>k'. k' = k) ks)" by blast
  show "\<not> distinct ks"
  proof
    assume d: "distinct ks"
    then have "length (filter (\<lambda>k'. k' = k) ks) = card ({k'. k' = k} \<inter> set ks)"
      by (rule distinct_length_filter)
    also have "\<dots> \<le> card {k}"
      by (rule card_mono) auto
    finally show False using k by simp
  qed
next
  assume "\<not> distinct ks"
  then obtain xs ys zs y where "ks = xs @ [y] @ ys @ [y] @ zs"
    using not_distinct_decomp by blast
  then have "y \<in> set ks" "2 \<le> length (filter (\<lambda>k'. k' = y) ks)"
    by simp_all
  then show "\<exists>k \<in> set ks. 2 \<le> length (filter (\<lambda>k'. k' = k) ks)" by blast
qed

lemma repeated_rows_positive:
  "0 < repeated_rows ing \<longleftrightarrow> (\<exists>r \<in> set (rows ing). in_duplicate_group ing r)"
proof -
  let ?ks = "map (identity ing) (rows ing)"
  have "0 < repeated_rows ing \<longleftrightarrow> (\<exists>i < length (rows ing). repeats_earlier ing i)"
    by (auto simp: repeated_rows_def filter_empty_conv)
  also have "\<dots> \<longleftrightarrow> (\<exists>i < length ?ks. ?ks ! i \<in> set (take i ?ks))"
    by (auto simp: repeats_earlier_def take_map)
  also have "\<dots> \<longleftrightarrow> \<not> distinct ?ks"
    by (rule repeat_iff_not_distinct)
  also have "\<dots> \<longleftrightarrow> (\<exists>k \<in> set ?ks. 2 \<le> length (filter (\<lambda>k'. k' = k) ?ks))"
    by (rule twice_iff_not_distinct[symmetric])
  also have "\<dots> \<longleftrightarrow> (\<exists>r \<in> set (rows ing). in_duplicate_group ing r)"
    by (simp add: in_duplicate_group_def filter_map o_def)
  finally show ?thesis .
qed

lemma select_marked_all:
  "select_rows ing (marked_all (map (identity ing) (rows ing)))
     = ing\<lparr> rows := filter (in_duplicate_group ing) (rows ing) \<rparr>"
proof -
  have "marked_all (map (identity ing) (rows ing)) = map (in_duplicate_group ing) (rows ing)"
    by (simp add: marked_all_def in_duplicate_group_def filter_map o_def)
  then show ?thesis
    by (simp add: select_rows_def select_marked)
qed

lemma analyze_data_quality_report:
  "analyze_data_quality raw ing =
     Inr (if columns ing \<noteq> [] \<and> 0 < repeated_rows ing
          then \<lparr> quality_issues = null_issues ing (identifying_columns ing) @
                   [''Ingestion data has '' @ show_nat (repeated_rows ing)
                      @ duplicate_wording ing],
                 duplicate_rows =
                   Some (ing\<lparr> rows := filter (in_duplicate_group ing) (rows ing) \<rparr>) \<rparr>
          else \<lparr> quality_issues = null_issues ing (identifying_columns ing),
                 duplicate_rows = None \<rparr>)"
proof (cases "columns ing = []")
  case True
  then show ?thesis
    by (simp add: analyze_data_quality_unfold duplicate_check_def and_then_def
          duplicated_identifying)
next
  case False
  then have k: "duplicated ing (identifying_columns ing) k =
             Inr (case k of KeepFirst \<Rightarrow> marked_after [] (map (identity ing) (rows ing))
                          | KeepFalse \<Rightarrow> marked_all (map (identity ing) (rows ing)))" for k
    by (cases k) (auto simp: duplicated_identifying marked_all_def)
  have z: "filter id (marked_after [] (map (identity ing) (rows ing))) = []
             \<longleftrightarrow> repeated_rows ing = 0"
    using repeated_rows_count[of ing] by (metis length_0_conv)
  show ?thesis
    using False
    by (simp add: analyze_data_quality_unfold duplicate_check_def and_then_def k Let_def
          repeated_rows_count select_marked_all z)
qed


lemma analyze_data_quality_ing_dup:
  "analyze_data_quality no_table ing_dup =
     Inr \<lparr> quality_issues =
             [''Ingestion data has 1 duplicate rows (same values in all columns except Quantity)''],
           duplicate_rows = Some ing_dup \<rparr>"
  by (simp add: analyze_data_quality_def identify_ingestion_file_type_def type1_indicators_def
        ing_dup_def duplicate_check_def duplicated_def and_then_def projection_def cell_of_def
        marked_all_def select_rows_def Let_def null_count_def show_nat.simps digit_char_def)

text \<open>
  C3, as stated, fails: on the table of two rows that agree on every column, both rows
  belong to a duplicate group, and the message of the analysis reports 1 duplicate row.
\<close>

theorem analyze_data_quality_count_counterexample:
  "identify_ingestion_file_type ing_dup = ''Monthly Data in Rows''
   \<and> length (filter (in_duplicate_group ing_dup) (rows ing_dup)) = 2
   \<and> analyze_data_quality no_table ing_dup =
       Inr \<lparr> quality_issues =
               [''Ingestion data has 1 duplicate rows (same values in all columns except Quantity)''],
             duplicate_rows = Some ing_dup \<rparr>"
proof -
  have "identify_ingestion_file_type ing_dup = ''Monthly Data in Rows''
      \<and> length (filter (in_duplicate_group ing_dup) (rows ing_dup)) = 2"
    by (simp add: in_duplicate_group_def identity_def identifying_columns_def
          identify_ingestion_file_type_def type1_indicators_def ing_dup_def projection_def
          cell_of_def)
  then show ?thesis
    by (simp add: analyze_data_quality_ing_dup)
qed

text \<open>
  C3, amended. The analysis returns a report whose issue list is the null messages
  followed by at most one duplicate message, emitted when the table has a column and some
  row repeats the identity of an earlier row. The count the message states is the number
  of rows that repeat the identity of an earlier row (the occurrences beyond the first of
  each duplicate group), followed by the wording of the schema kind; for two rows that
  agree on every column under Monthly Data in Rows the count is 1.
\<close>

theorem analyze_data_quality_duplicate_message:
  "\<exists>q. analyze_data_quality raw ing = Inr q
      \<and> quality_issues q = null_issues ing (identifying_columns ing) @
          (if columns ing \<noteq> [] \<and> 0 < repeated_rows ing
           then [''Ingestion data has '' @ show_nat (repeated_rows ing) @ duplicate_wording ing]
           else [])"
  by (simp add: analyze_data_quality_report)

theorem analyze_data_quality_duplicate_message_witness:
  "columns ing_dup \<noteq> [] \<and> repeated_rows ing_dup = 1 \<and> show_nat 1 = ''1''
   \<and> (\<exists>q. analyze_data_quality no_table ing_dup = Inr q
        \<and> quality_issues q =
            [''Ingestion data has 1 duplicate rows (same values in all columns except Quantity)''])"
proof -
  have h: "columns ing_dup \<noteq> []"
    by (simp add: ing_dup_def)
  have r: "repeated_rows ing_dup = 1"
    by (simp add: identity_def identifying_columns_def identify_ingestion_file_type_def
          type1_indicators_def ing_dup_def projection_def cell_of_def repeated_rows_def
          repeats_earlier_def upt_rec)
  have s: "show_nat 1 = ''1''"
    by (simp add: show_nat.simps digit_char_def)
  from analyze_data_quality_duplicate_message [of no_table ing_dup] obtain q where
    "analyze_data_quality no_table ing_dup = Inr q"
    by blast
  with h r s show ?thesis
    by (auto simp: analyze_data_quality_ing_dup)
qed

text \<open>
  C4. For every ingestion table read from a sheet and every schema kind, the duplicate
  rows of the report are the table cut down to exactly the rows that belong to a duplicate
  group, every occurrence of each group included, the first too, in the table's order;
  when no row belongs to a duplicate group they are absent.
\<close>

theorem analyze_data_quality_duplicate_rows:
  assumes "sheet_table ing"
  shows "\<exists>q. analyze_data_quality raw ing = Inr q
      \<and> duplicate_rows q =
          (if \<exists>r \<in> set (rows ing). in_duplicate_group ing r
           then Some (ing\<lparr> rows := filter (in_duplicate_group ing) (rows ing) \<rparr>)
           else None)"
proof -
  have "columns ing \<noteq> []" if "\<exists>r \<in> set (rows ing). in_duplicate_group ing r"
    using that assms by (auto simp: sheet_table_def)
  then show ?thesis
    using repeated_rows_positive[of ing]
    by (auto simp: analyze_data_quality_report)
qed

theorem analyze_data_quality_duplicate_rows_witness:
  "sheet_table ing_rows \<and> (\<exists>r \<in> set (rows ing_rows). in_duplicate_group ing_rows r)
   \<and> (\<exists>q. analyze_data_quality no_table ing_rows = Inr q
        \<and> duplicate_rows q = Some (ing_rows\<lparr> rows := take 2 (rows ing_rows) \<rparr>))
   \<and> sheet_table ing_A \<and> \<not> (\<exists>r \<in> set (rows ing_A). in_duplicate_group ing_A r)
   \<and> (\<exists>q. analyze_data_quality no_table ing_A = Inr q \<and> duplicate_rows q = None)"
proof -
  have h: "sheet_table ing_rows" "sheet_table ing_A"
    by (simp_all add: sheet_table_def ing_rows_def ing_A_def)
  have e: "\<exists>r \<in> set (rows ing_rows). in_duplicate_group ing_rows r"
    by (simp add: in_duplicate_group_def identity_def identifying_columns_def
          identify_ingestion_file_type_def type1_indicators_def ing_rows_def projection_def
          cell_of_def)
  have f: "filter (in_duplicate_group ing_rows) (rows ing_rows) = take 2 (rows ing_rows)"
    by (simp add: in_duplicate_group_def identity_def identifying_columns_def
          identify_ingestion_file_type_def type1_indicators_def ing_rows_def projection_def
          cell_of_def)
  have n: "\<not> (\<exists>r \<in> set (rows ing_A). in_duplicate_group ing_A r)"
    by (simp add: in_duplicate_group_def identity_def identifying_columns_def
          identify_ingestion_file_type_def type1_indicators_def type2_indicators_def
          ing_A_def projection_def cell_of_def)
  from analyze_data_quality_duplicate_rows [OF h(1), of no_table]
       analyze_data_quality_duplicate_rows [OF h(2), of no_table] h e f n
  show ?thesis by simp
qed

subsection \<open>Orchestration\<close>











lemma schema_has_scope:
  assumes "identify_ingestion_file_type ing = ''Monthly Data in Rows''
         \<or> identify_ingestion_file_type ing = ''Monthly Data in Columns''"
  shows "identify_resource_type ing = ''GHG Emissions''"
  using assms
  by (auto simp: identify_ingestion_file_type_def identify_resource_type_def Let_def
        type1_indicators_def type2_indicators_def split: if_splits)

lemma file_type_cases:
  "identify_ingestion_file_type ing = ''Monthly Data in Rows''
   \<or> identify_ingestion_file_type ing = ''Monthly Data in Columns''
   \<or> identify_ingestion_file_type ing = ''Unknown''
   \<or> failed (identify_ingestion_file_type ing)"
  by (auto simp: identify_ingestion_file_type_guards failed_def split: sum.splits)

lemma ing_cols_type: "identify_ingestion_file_type ing_cols = ''Monthly Data in Columns''
   \<and> identify_resource_type ing_cols = ''GHG Emissions''"
  by (simp add: identify_ingestion_file_type_def identify_resource_type_def ing_cols_def Let_def
        type1_indicators_def type2_indicators_def is_month_column_def month_tokens_def sublist_code)

lemma ing_scope_type: "identify_ingestion_file_type ing_scope = ''Unknown''
   \<and> identify_resource_type ing_scope = ''GHG Emissions''"
  by (simp add: identify_ingestion_file_type_def identify_resource_type_def ing_scope_def Let_def
        type1_indicators_def type2_indicators_def)

text \<open>
  C6, as stated, fails: for an ingestion table of the Monthly Data in Columns schema and
  the GHG Emissions resource type the report carries no match records, and for one of
  Unknown schema and the GHG Emissions resource type record matching is invoked all the
  same and its error value is carried in the report.
\<close>

theorem compare_dataframes_matching_counterexample:
  "identify_resource_type ing_cols = ''GHG Emissions''
   \<and> identify_ingestion_file_type ing_cols = ''Monthly Data in Columns''
   \<and> \<not> carries_match_records (compare_dataframes process_A raw_A ing_cols)
   \<and> identify_resource_type ing_scope = ''GHG Emissions''
   \<and> identify_ingestion_file_type ing_scope = ''Unknown''
   \<and> resource_comparison (compare_dataframes process_A raw_A ing_scope)
       = Some (Inl (ErrorMsg ''Unknown ingestion file type: Unknown''))"
  using ing_cols_type ing_scope_type
  by (simp add: carries_match_records_def compare_dataframes_def Let_def
        compare_ghg_emissions_data_def map_ghg_emissions_data_def)

text \<open>
  C6, amended. The orchestrator invokes record matching, and the report carries its
  outcome, exactly when the resource type is GHG Emissions, whatever the schema. The
  outcome is a list of match records with its counters exactly when the schema is Monthly
  Data in Rows and the matching returns no error; for Monthly Data in Columns it is the
  placeholder without records, and for Unknown it is an error value.
\<close>

theorem compare_dataframes_resource_comparison:
  "(resource_comparison (compare_dataframes proc raw ing) \<noteq> None
      \<longleftrightarrow> identify_resource_type ing = ''GHG Emissions'')
   \<and> (carries_match_records (compare_dataframes proc raw ing)
      \<longleftrightarrow> identify_ingestion_file_type ing = ''Monthly Data in Rows''
          \<and> \<not> isl (map_ghg_emissions_data raw ing ''Monthly Data in Rows''))
   \<and> (identify_ingestion_file_type ing = ''Monthly Data in Columns''
      \<longrightarrow> resource_comparison (compare_dataframes proc raw ing)
          = Some (Inr \<lparr> ghg_resource_type = ''GHG Emissions'',
                        ghg_ingestion_type = ''Monthly Data in Columns'',
                        comparison_status = ''Completed'',
                        mapping = ColumnsMapping ''Monthly Data in Columns''
                          ''Monthly Data in Columns mapping ready for implementation'' \<rparr>))
   \<and> (identify_ingestion_file_type ing = ''Unknown''
        \<and> identify_resource_type ing = ''GHG Emissions''
      \<longrightarrow> resource_comparison (compare_dataframes proc raw ing)
          = Some (Inl (ErrorMsg ''Unknown ingestion file type: Unknown'')))"
proof (intro conjI impI)
  show "resource_comparison (compare_dataframes proc raw ing) \<noteq> None
      \<longleftrightarrow> identify_resource_type ing = ''GHG Emissions''"
    by (simp add: compare_dataframes_def Let_def)
next
  show "carries_match_records (compare_dataframes proc raw ing)
      \<longleftrightarrow> identify_ingestion_file_type ing = ''Monthly Data in Rows''
          \<and> \<not> isl (map_ghg_emissions_data raw ing ''Monthly Data in Rows'')"
  proof (cases "identify_ingestion_file_type ing = ''Monthly Data in Rows''")
    case True
    then have g: "identify_resource_type ing = ''GHG Emissions''"
      by (simp add: schema_has_scope)
    show ?thesis
    proof (cases "map_ghg_emissions_data raw ing ''Monthly Data in Rows''")
      case (Inl e)
      then show ?thesis
        using True g
        by (simp add: carries_match_records_def compare_dataframes_def Let_def
              compare_ghg_emissions_data_def)
    next
      case (Inr m)
      then have "\<exists>rm. m = RowsMapping rm"
        by (auto simp: map_ghg_emissions_data_def Let_def split: sum.splits)
      then show ?thesis
        using True g Inr
        by (auto simp: carries_match_records_def compare_dataframes_def Let_def
              compare_ghg_emissions_data_def)
    qed
  next
    case False
    have n: "identify_ingestion_file_type ing \<noteq> ''Monthly Data in Columns''"
      if "failed (identify_ingestion_file_type ing)"
      using that by (auto simp: failed_def)
    show ?thesis
      using False file_type_cases[of ing] n
      by (auto simp: carries_match_records_def compare_dataframes_def Let_def
            compare_ghg_emissions_data_def map_ghg_emissions_data_def
            split: option.splits sum.splits)
  qed
next
  assume "identify_ingestion_file_type ing = ''Monthly Data in Columns''"
  then show "resource_comparison (compare_dataframes proc raw ing)
          = Some (Inr \<lparr> ghg_resource_type = ''GHG Emissions'',
                        ghg_ingestion_type = ''Monthly Data in Columns'',
                        comparison_status = ''Completed'',
                        mapping = ColumnsMapping ''Monthly Data in Columns''
                          ''Monthly Data in Columns mapping ready for implementation'' \<rparr>)"
    by (simp add: compare_dataframes_def Let_def schema_has_scope
          compare_ghg_emissions_data_def map_ghg_emissions_data_def)
next
  assume "identify_ingestion_file_type ing = ''Unknown''
        \<and> identify_resource_type ing = ''GHG Emissions''"
  then show "resource_comparison (compare_dataframes proc raw ing)
          = Some (Inl (ErrorMsg ''Unknown ingestion file type: Unknown''))"
    by (simp add: compare_dataframes_def Let_def
          compare_ghg_emissions_data_def map_ghg_emissions_data_def)
qed

theorem compare_dataframes_resource_comparison_witness:
  "identify_ingestion_file_type ing_rows = ''Monthly Data in Rows''
   \<and> \<not> isl (map_ghg_emissions_data raw_rows ing_rows ''Monthly Data in Rows'')
   \<and> carries_match_records (compare_dataframes process_A raw_rows ing_rows)
   \<and> identify_ingestion_file_type ing_cols = ''Monthly Data in Columns''
   \<and> resource_comparison (compare_dataframes process_A raw_rows ing_cols)
       = Some (Inr \<lparr> ghg_resource_type = ''GHG Emissions'',
                     ghg_ingestion_type = ''Monthly Data in Columns'',
                     comparison_status = ''Completed'',
                     mapping = ColumnsMapping ''Monthly Data in Columns''
                       ''Monthly Data in Columns mapping ready for implementation'' \<rparr>)
   \<and> identify_ingestion_file_type ing_scope = ''Unknown''
   \<and> identify_resource_type ing_scope = ''GHG Emissions''
   \<and> resource_comparison (compare_dataframes process_A raw_rows ing_scope)
       = Some (Inl (ErrorMsg ''Unknown ingestion file type: Unknown''))
   \<and> identify_resource_type ing_A = ''Unknown''
   \<and> resource_comparison (compare_dataframes process_A raw_A ing_A) = None"
proof -
  have u: "identify_resource_type ing_A = ''Unknown''"
    by (simp add: identify_resource_type_def ing_A_def)
  from compare_dataframes_resource_comparison [of process_A raw_rows ing_rows]
       compare_dataframes_resource_comparison [of process_A raw_rows ing_cols]
       compare_dataframes_resource_comparison [of process_A raw_rows ing_scope]
       compare_dataframes_resource_comparison [of process_A raw_A ing_A]
       matching_sample_conditions map_ghg_emissions_data_sample
       ing_cols_type ing_scope_type u
  show ?thesis by simp
qed

end
